theory Spec2Isabelle
  imports Main "HOL-Library.Sublist" "HOL-Library.AList"
begin

text \<open>
  The repository holds two versions of \<^verbatim>\<open>lib/expressroutes.js\<close>, the older and the
  newer request pipeline, besides \<^verbatim>\<open>lib/index.js\<close> and the scaffolding script
  \<^verbatim>\<open>bin/lib/create.js\<close>. A function that differs between the two versions is embedded
  twice, the older one under its name with the suffix \<open>_old\<close>; a function that is the
  same in both (\<open>valueAccessor\<close>, \<open>makeValidator\<close>, \<open>buildRoutePath\<close>,
  \<open>makeExpressRoute\<close>, \<open>authorizeFor\<close>) is embedded once.
\<close>

section \<open>JavaScript strings and values\<close>

text \<open>
  Strings are \<^typ>\<open>string\<close>; the case conversions are those of
  \<^verbatim>\<open>String.prototype.toLowerCase\<close> and \<^verbatim>\<open>toUpperCase\<close> on ASCII text, which is
  what HTTP method names, header names and media types are made of.
\<close>

definition toLowerChar :: "char \<Rightarrow> char" where
  "toLowerChar c =
     (case map_of (zip ''ABCDEFGHIJKLMNOPQRSTUVWXYZ'' ''abcdefghijklmnopqrstuvwxyz'') c of
        Some d \<Rightarrow> d
      | None \<Rightarrow> c)"

definition toUpperChar :: "char \<Rightarrow> char" where
  "toUpperChar c =
     (case map_of (zip ''abcdefghijklmnopqrstuvwxyz'' ''ABCDEFGHIJKLMNOPQRSTUVWXYZ'') c of
        Some d \<Rightarrow> d
      | None \<Rightarrow> c)"

definition toLowerCase :: "string \<Rightarrow> string" where
  "toLowerCase s = map toLowerChar s"

definition toUpperCase :: "string \<Rightarrow> string" where
  "toUpperCase s = map toUpperChar s"

text \<open>\<^verbatim>\<open>Array.prototype.join\<close> on an array of strings.\<close>

fun js_join :: "string \<Rightarrow> string list \<Rightarrow> string" where
  "js_join sep [] = []"
| "js_join sep [x] = x"
| "js_join sep (x # y # ys) = x @ sep @ js_join sep (y # ys)"

text \<open>
  \<^verbatim>\<open>String.prototype.split\<close> with a non-empty separator string: the pieces between the
  occurrences of the separator, scanning from the left; a string without the separator
  is one piece (the empty string too).
\<close>

function js_split_aux :: "string \<Rightarrow> string \<Rightarrow> string \<Rightarrow> string list" where
  "js_split_aux sep acc [] = [rev acc]"
| "js_split_aux sep acc (c # cs) =
     (if sep \<noteq> [] \<and> prefix sep (c # cs)
      then rev acc # js_split_aux sep [] (drop (length sep) (c # cs))
      else js_split_aux sep (c # acc) cs)"
  by pat_completeness auto
termination
  by (relation "measure (\<lambda>(sep, acc, s). length s)") auto

definition js_split :: "string \<Rightarrow> string \<Rightarrow> string list" where
  "js_split sep s = js_split_aux sep [] s"

text \<open>\<^verbatim>\<open>String.prototype.includes\<close>: the argument occurs as a contiguous substring.\<close>

fun js_includes :: "string \<Rightarrow> string \<Rightarrow> bool" where
  "js_includes [] sub = (sub = [])"
| "js_includes (c # cs) sub = (prefix sub (c # cs) \<or> js_includes cs sub)"

text \<open>
  \<^verbatim>\<open>String.prototype.replace\<close> with a string pattern: only the first occurrence is
  replaced.
\<close>

fun js_replace_first :: "string \<Rightarrow> string \<Rightarrow> string \<Rightarrow> string" where
  "js_replace_first pat rep [] = (if pat = [] then rep else [])"
| "js_replace_first pat rep (c # cs) =
     (if prefix pat (c # cs) then rep @ drop (length pat) (c # cs)
      else c # js_replace_first pat rep cs)"

text \<open>
  The values a request carries in its parameters, query and body. Numbers are the
  integral ones, with \<open>NaN\<close> apart, and an array is the object of its indices;
  \<open>truthy\<close> is JavaScript's conversion to a boolean.
\<close>

datatype jsval =
    JUndefined
  | JNull
  | JBool bool
  | JNum int
  | JNaN
  | JStr string
  | JObj "(string \<times> jsval) list"

fun truthy :: "jsval \<Rightarrow> bool" where
  "truthy JUndefined = False"
| "truthy JNull = False"
| "truthy (JBool b) = b"
| "truthy (JNum n) = (n \<noteq> 0)"
| "truthy JNaN = False"
| "truthy (JStr s) = (s \<noteq> [])"
| "truthy (JObj kvs) = True"

text \<open>Reading a property of a plain object; a missing key reads as \<open>undefined\<close>.\<close>

definition js_get :: "(string \<times> jsval) list \<Rightarrow> string \<Rightarrow> jsval" where
  "js_get obj key = (case map_of obj key of Some v \<Rightarrow> v | None \<Rightarrow> JUndefined)"

section \<open>Requests, responses and middleware\<close>

record upload =
  fieldname :: "string option"
  buffer :: "string option"
  filepath :: "string option"

text \<open>
  The fields of an Express request that the middleware reads or writes.
  \<open>req_headers\<close> is keyed by lower-cased header name, as Node stores it;
  \<open>req_expressroutes\<close> is the property \<^verbatim>\<open>req._expressroutes\<close>, \<open>None\<close> while it is
  undefined.
\<close>

record request =
  req_method :: string
  req_headers :: "(string \<times> string) list"
  req_params :: "(string \<times> jsval) list"
  req_query :: "(string \<times> jsval) list"
  req_body :: jsval
  req_file :: "upload option"
  req_files :: "upload list option"
  req_expressroutes :: "nat option"
  req_requiredScopes :: "string list option"
  req_swaggerDefinition :: jsval

text \<open>
  \<^verbatim>\<open>req.header(name)\<close> of Express: the lookup is by lower-cased name, and
  \<open>referer\<close> and \<open>referrer\<close> name the same header.
\<close>

definition req_header :: "request \<Rightarrow> string \<Rightarrow> string option" where
  "req_header req name =
     (let lc = toLowerCase name in
      if lc = ''referer'' \<or> lc = ''referrer''
      then (case map_of (req_headers req) ''referrer'' of
              Some v \<Rightarrow> if v \<noteq> [] then Some v else map_of (req_headers req) ''referer''
            | None \<Rightarrow> map_of (req_headers req) ''referer'')
      else map_of (req_headers req) lc)"

record errinfo =
  detail :: string
  status :: nat
  title :: string

datatype body =
    StatusText nat
  | ErrorMessage string
  | ValidationErrors "errinfo list"
  | ApiDocument

record response =
  statusCode :: "nat option"
  res_headers :: "(string \<times> string) list"
  res_body :: "body option"

text \<open>
  Writing to a response that has not been sent yet (\<open>res_body\<close> is \<open>None\<close> until
  then). Express refuses to set a header on, or to send, a response that has been sent;
  the definitions below describe the first answer to a request.
\<close>

definition res_set :: "string \<Rightarrow> string \<Rightarrow> response \<Rightarrow> response" where
  "res_set name v res = res\<lparr>res_headers := AList.update name v (res_headers res)\<rparr>"

definition res_status :: "nat \<Rightarrow> response \<Rightarrow> response" where
  "res_status code res = res\<lparr>statusCode := Some code\<rparr>"

definition res_send :: "body \<Rightarrow> response \<Rightarrow> response" where
  "res_send b res = res\<lparr>res_body := Some b\<rparr>"

text \<open>\<^verbatim>\<open>res.sendStatus(code)\<close> sets the status code and sends its standard text.\<close>

definition res_sendStatus :: "nat \<Rightarrow> response \<Rightarrow> response" where
  "res_sendStatus code res = res_send (StatusText code) (res_status code res)"

text \<open>
  An error object as the pipeline forwards it: \<^verbatim>\<open>new Error(message)\<close> with the
  properties the newer pipeline's \<^verbatim>\<open>error\<close> helper adds.
\<close>

record jserror =
  e_message :: string
  e_name :: string
  e_status :: "nat option"
  e_title :: "string option"
  e_description :: "string option"

text \<open>
  What a middleware did with its continuation: it did not call \<^verbatim>\<open>next\<close> (it answered
  itself), it called \<^verbatim>\<open>next()\<close> (\<open>Next None\<close>) or \<^verbatim>\<open>next(err)\<close>, or it threw.
\<close>

datatype signal = NotCalled | Next "jserror option" | Throws string

type_synonym middleware = "request \<Rightarrow> response \<Rightarrow> request \<times> response \<times> signal"

definition req_of :: "request \<times> response \<times> signal \<Rightarrow> request" where
  "req_of out = fst out"

definition res_of :: "request \<times> response \<times> signal \<Rightarrow> response" where
  "res_of out = fst (snd out)"

definition signal_of :: "request \<times> response \<times> signal \<Rightarrow> signal" where
  "signal_of out = snd (snd out)"

text \<open>
  The helper \<^verbatim>\<open>error(httpStatusCode, title, description)\<close> of the newer pipeline. The
  module variable \<^verbatim>\<open>errorName\<close> is a parameter; an unset or empty name gives the default.
\<close>

definition error :: "string option \<Rightarrow> nat \<Rightarrow> string \<Rightarrow> string \<Rightarrow> jserror" where
  "error errorName httpStatusCode ttl description =
     \<lparr>e_message = [],
      e_name = (case errorName of
                  None \<Rightarrow> ''SwaggerizeExpressVmt''
                | Some n \<Rightarrow> if n = [] then ''SwaggerizeExpressVmt'' else n),
      e_status = Some httpStatusCode,
      e_title = Some ttl,
      e_description = Some description\<rparr>"

section \<open>Method-not-allowed middleware\<close>

text \<open>
  The older pipeline: on a method outside \<open>methods\<close> the middleware sets \<open>Allow\<close>, sends
  405, and then calls \<^verbatim>\<open>next()\<close> all the same.
\<close>

definition buildNotAllowedMiddleware_old :: "string list \<Rightarrow> middleware" where
  "buildNotAllowedMiddleware_old methods req res =
     (if toLowerCase (req_method req) \<notin> set methods
      then (req,
            res_sendStatus 405 (res_set ''Allow'' (toUpperCase (js_join '', '' methods)) res),
            Next None)
      else (req, res, Next None))"

text \<open>
  The newer pipeline: the check is made only while \<^verbatim>\<open>req._expressroutes\<close> is falsy
  (undefined or 0); a request that passes has the counter initialised and incremented.
\<close>

definition counter_falsy :: "nat option \<Rightarrow> bool" where
  "counter_falsy c = (case c of None \<Rightarrow> True | Some n \<Rightarrow> n = 0)"

definition bump_counter :: "request \<Rightarrow> request" where
  "bump_counter req =
     req\<lparr>req_expressroutes :=
           Some ((case req_expressroutes req of None \<Rightarrow> 0 | Some n \<Rightarrow> n) + 1)\<rparr>"

definition buildNotAllowedMiddleware :: "string option \<Rightarrow> string list \<Rightarrow> middleware" where
  "buildNotAllowedMiddleware errorName methods req res =
     (if counter_falsy (req_expressroutes req) \<and> toLowerCase (req_method req) \<notin> set methods
      then (req,
            res_sendStatus 405 (res_set ''Allow'' (toUpperCase (js_join '', '' methods)) res),
            Next (Some (error errorName 405 ''Method Not Allowed''
              (''Method Not Allowed (valid methods: '' @ [CHR 0x27]
                 @ toUpperCase (js_join '', '' methods) @ [CHR 0x27] @ '')''))))
      else (bump_counter req, res, Next None))"

section \<open>Content negotiation\<close>

text \<open>
  The tables the middleware close over: for one resolved path, the media types per
  lower-cased method. \<^verbatim>\<open>table[method] || []\<close> is \<open>media_types_of\<close>. (The methods
  are those of HTTP requests and of routes, none of which names a member that a plain
  object inherits.)
\<close>

type_synonym media_table = "(string \<times> string list) list"

definition media_types_of :: "media_table \<Rightarrow> string \<Rightarrow> string list" where
  "media_types_of table m = (case map_of table m of Some l \<Rightarrow> l | None \<Rightarrow> [])"

definition mutating_method :: "string \<Rightarrow> bool" where
  "mutating_method m = (m = ''patch'' \<or> m = ''post'' \<or> m = ''put'')"

definition quoted_list :: "string list \<Rightarrow> string" where
  "quoted_list mediaTypes =
     [CHR 0x27] @ js_join ([CHR 0x27] @ '', '' @ [CHR 0x27]) mediaTypes @ [CHR 0x27]"

text \<open>
  The older pipeline compares the whole header with the declared media types
  (\<^verbatim>\<open>mediaTypes.indexOf(header) === -1\<close>) and answers 415 itself.
\<close>

definition validateContentTypeHeaderMiddleware_old :: "media_table \<Rightarrow> middleware" where
  "validateContentTypeHeaderMiddleware_old consumes req res =
     (let method = toLowerCase (req_method req);
          mediaTypes = media_types_of consumes method
      in case req_header req ''content-type'' of
           None \<Rightarrow> (req, res, Next None)
         | Some header \<Rightarrow>
             if header \<noteq> [] \<and> header \<noteq> ''*/*''
             then (if mutating_method method
                   then (if header \<notin> set mediaTypes
                         then (req,
                               res_send (ErrorMessage (''Unsupported header Content-Type ''
                                   @ [CHR 0x27] @ header @ [CHR 0x27]
                                   @ '' (valid media types: '' @ quoted_list mediaTypes @ '')''))
                                 (res_status 415 res),
                               NotCalled)
                         else (req, res, Next None))
                   else (req, res, Next None))
             else (req, res, Next None))"

text \<open>
  The newer pipeline splits the header at \<^verbatim>\<open>', '\<close> (an absent or empty header gives
  no values), lets a value \<^verbatim>\<open>*/*\<close> through, and accepts as soon as one value includes
  one declared media type.
\<close>

definition header_values :: "string option \<Rightarrow> string list" where
  "header_values h =
     (case h of None \<Rightarrow> [] | Some s \<Rightarrow> if s = [] then [] else js_split '', '' s)"

definition validated :: "string list \<Rightarrow> string list \<Rightarrow> bool" where
  "validated headers mediaTypes =
     list_ex (\<lambda>h. list_ex (\<lambda>mediaType. js_includes h mediaType) mediaTypes) headers"

definition validateContentTypeHeaderMiddleware :: "string option \<Rightarrow> media_table \<Rightarrow> middleware" where
  "validateContentTypeHeaderMiddleware errorName consumes req res =
     (let method = toLowerCase (req_method req);
          mediaTypes = media_types_of consumes method;
          headers = header_values (req_header req ''content-type'')
      in if ''*/*'' \<notin> set headers
         then (if mutating_method method
               then (if counter_falsy (req_expressroutes req) \<and> \<not> validated headers mediaTypes
                     then (req, res,
                           Next (Some (error errorName 415 ''Unsupported Content-Type header''
                             (''Unsupported Content-Type header: '' @ [CHR 0x27]
                                @ js_join '', '' headers @ [CHR 0x27]
                                @ '' (valid media types: '' @ quoted_list mediaTypes @ '')''))))
                     else (req, res, Next None))
               else (req, res, Next None))
         else (req, res, Next None))"

text \<open>
  \<^verbatim>\<open>produces[method] || consumes[method] || []\<close>: an array, empty or not, is truthy, so
  the table of consumed types is read only where the produced ones have no entry.
\<close>

definition accept_media_types :: "media_table \<Rightarrow> media_table \<Rightarrow> string \<Rightarrow> string list" where
  "accept_media_types produces consumes m =
     (case map_of produces m of
        Some l \<Rightarrow> l
      | None \<Rightarrow> media_types_of consumes m)"

definition validateAcceptHeaderMiddleware_old :: "media_table \<Rightarrow> media_table \<Rightarrow> middleware" where
  "validateAcceptHeaderMiddleware_old produces consumes req res =
     (let method = toLowerCase (req_method req);
          mediaTypes = accept_media_types produces consumes method
      in case req_header req ''accept'' of
           None \<Rightarrow> (req, res, Next None)
         | Some header \<Rightarrow>
             if header \<noteq> [] \<and> header \<noteq> ''*/*''
             then (if header \<notin> set mediaTypes
                   then (req,
                         res_send (ErrorMessage (''Unsupported header Accept '' @ [CHR 0x27]
                             @ header @ [CHR 0x27]
                             @ '' (valid media types: '' @ quoted_list mediaTypes @ '')''))
                           (res_status 406 res),
                         NotCalled)
                   else (req, res, Next None))
             else (req, res, Next None))"

definition validateAcceptHeaderMiddleware ::
  "string option \<Rightarrow> media_table \<Rightarrow> media_table \<Rightarrow> middleware" where
  "validateAcceptHeaderMiddleware errorName produces consumes req res =
     (let method = toLowerCase (req_method req);
          mediaTypes = accept_media_types produces consumes method;
          headers = header_values (req_header req ''accept'')
      in if ''*/*'' \<notin> set headers
         then (if \<not> validated headers mediaTypes
               then (req, res,
               Next (Some (error errorName 406 ''Unsupported Accept header''
                 (''Unsupported Accept header: '' @ [CHR 0x27] @ js_join '', '' headers
                    @ [CHR 0x27] @ '' (valid media types: '' @ quoted_list mediaTypes @ '')''))))
               else (req, res, Next None))
         else (req, res, Next None))"

section \<open>Accessors and the validator middleware\<close>

record parameter =
  p_name :: string
  p_in :: string
  p_required :: bool
  p_type :: "string option"

text \<open>
  An accessor is the pair of functions \<open>get\<close> and \<open>set\<close>; either may throw
  (\<open>Inl\<close> carries the message) where the JavaScript reads or writes a property of
  \<open>undefined\<close>, \<open>null\<close> or, under \<^verbatim>\<open>'use strict'\<close>, writes one on a primitive.
\<close>

record accessor =
  acc_get :: "request \<Rightarrow> string \<Rightarrow> string + jsval"
  acc_set :: "request \<Rightarrow> string \<Rightarrow> jsval \<Rightarrow> string + request"

definition defaultAccessor :: "string \<Rightarrow> accessor" where
  "defaultAccessor dataLoc =
     \<lparr>acc_get = (\<lambda>req key.
        if dataLoc = ''params'' then Inr (js_get (req_params req) key)
        else if dataLoc = ''query'' then Inr (js_get (req_query req) key)
        else Inl ''TypeError''),
      acc_set = (\<lambda>req key val.
        if dataLoc = ''params'' then Inr (req\<lparr>req_params := AList.update key val (req_params req)\<rparr>)
        else if dataLoc = ''query'' then Inr (req\<lparr>req_query := AList.update key val (req_query req)\<rparr>)
        else Inl ''TypeError'')\<rparr>"

text \<open>\<^verbatim>\<open>obj[key]\<close> and \<^verbatim>\<open>obj[key] = val\<close> on a value that may not be an object.\<close>

definition js_member :: "jsval \<Rightarrow> string \<Rightarrow> string + jsval" where
  "js_member v key =
     (case v of
        JUndefined \<Rightarrow> Inl ''TypeError''
      | JNull \<Rightarrow> Inl ''TypeError''
      | JObj kvs \<Rightarrow> Inr (js_get kvs key)
      | _ \<Rightarrow> Inr JUndefined)"

definition js_assign :: "jsval \<Rightarrow> string \<Rightarrow> jsval \<Rightarrow> string + jsval" where
  "js_assign v key val =
     (case v of
        JObj kvs \<Rightarrow> Inr (JObj (AList.update key val kvs))
      | _ \<Rightarrow> Inl ''TypeError'')"

text \<open>
  \<^verbatim>\<open>req.file || Array.isArray(req.files) && req.files[0]\<close>: an upload, \<open>false\<close>
  (no array of files) or \<open>undefined\<close> (an empty array).
\<close>

datatype file_choice = FileIs upload | FileFalse | FileUndefined

definition chosen_file :: "request \<Rightarrow> file_choice" where
  "chosen_file req =
     (case req_file req of
        Some u \<Rightarrow> FileIs u
      | None \<Rightarrow>
          (case req_files req of
             None \<Rightarrow> FileFalse
           | Some [] \<Rightarrow> FileUndefined
           | Some (u # us) \<Rightarrow> FileIs u))"

definition formData_get :: "parameter \<Rightarrow> request \<Rightarrow> string \<Rightarrow> string + jsval" where
  "formData_get param req key =
     (if p_type param = Some ''file''
      then (case chosen_file req of
              FileUndefined \<Rightarrow> Inl ''TypeError''
            | FileFalse \<Rightarrow> js_member (req_body req) key
            | FileIs file \<Rightarrow>
                if fieldname file = Some key
                then (case buffer file of
                        Some b \<Rightarrow> Inr (JStr b)
                      | None \<Rightarrow> (case filepath file of
                                   Some p \<Rightarrow> Inr (JStr p)
                                 | None \<Rightarrow> Inr JUndefined))
                else js_member (req_body req) key)
      else js_member (req_body req) key)"

definition formData_set :: "parameter \<Rightarrow> request \<Rightarrow> string \<Rightarrow> jsval \<Rightarrow> string + request" where
  "formData_set param req key val =
     (case (if p_type param = Some ''file'' then js_member val ''value'' else Inr val) of
        Inl e \<Rightarrow> Inl e
      | Inr v \<Rightarrow>
          (case js_assign (req_body req) key v of
             Inl e \<Rightarrow> Inl e
           | Inr b \<Rightarrow> Inr (req\<lparr>req_body := b\<rparr>)))"

text \<open>
  \<open>valueAccessor\<close> has no branch for any other location: it returns \<open>undefined\<close>
  (\<open>None\<close>), and the caller throws when it calls \<open>get\<close> on it.
\<close>

definition valueAccessor :: "parameter \<Rightarrow> string list option \<Rightarrow> accessor option" where
  "valueAccessor param consumes =
     (if p_in param = ''path'' then Some (defaultAccessor ''params'')
      else if p_in param = ''query'' then Some (defaultAccessor ''query'')
      else if p_in param = ''header'' then
        Some \<lparr>acc_get = (\<lambda>req key.
                 Inr (case req_header req key of Some v \<Rightarrow> JStr v | None \<Rightarrow> JUndefined)),
              acc_set = (\<lambda>req key val. Inr req)\<rparr>
      else if p_in param = ''body'' then
        Some \<lparr>acc_get = (\<lambda>req key. Inr (req_body req)),
              acc_set = (\<lambda>req key val. Inr (req\<lparr>req_body := val\<rparr>))\<rparr>
      else if p_in param = ''formData'' then
        Some \<lparr>acc_get = formData_get param, acc_set = formData_set param\<rparr>
      else None)"

text \<open>
  What the external \<open>validate\<close> function hands to its callback: an error (with an
  optional name and optional list of details, each with an optional message) or the
  value, possibly coerced.
\<close>

record vdetail =
  d_message :: "string option"

record validation_error =
  ve_name :: "string option"
  ve_details :: "vdetail list option"

record validator =
  v_parameter :: parameter
  v_validate :: "jsval \<Rightarrow> validation_error + jsval"

text \<open>
  \<^verbatim>\<open>error.details && error.details[0] && error.details[0].message || 'Validation Error'\<close>
  and \<^verbatim>\<open>error.name || 'Bad Request'\<close>.
\<close>

definition error_detail :: "validation_error \<Rightarrow> string" where
  "error_detail e =
     (case ve_details e of
        Some (d # ds) \<Rightarrow>
          (case d_message d of
             Some m \<Rightarrow> if m \<noteq> [] then m else ''Validation Error''
           | None \<Rightarrow> ''Validation Error'')
      | _ \<Rightarrow> ''Validation Error'')"

definition error_title :: "validation_error \<Rightarrow> string" where
  "error_title e =
     (case ve_name e of
        Some n \<Rightarrow> if n \<noteq> [] then n else ''Bad Request''
      | None \<Rightarrow> ''Bad Request'')"

definition validation_errinfo :: "parameter \<Rightarrow> jsval \<Rightarrow> validation_error \<Rightarrow> errinfo" where
  "validation_errinfo param val e =
     (let err = \<lparr>detail = error_detail e, status = 400, title = error_title e\<rparr>;
          err = (if p_name param \<noteq> [] \<and> toLowerCase (p_name param) = ''content-type''
                 then err\<lparr>status := 415, title := ''Unsupported Media Type''\<rparr>
                 else err);
          err = (if p_required param \<and> \<not> truthy val
                 then err\<lparr>status := 400, title := ''Missing Value for Required Header''\<rparr>
                 else err)
      in err)"

definition makeValidator :: "validator \<Rightarrow> string list option \<Rightarrow> middleware" where
  "makeValidator v consumes req res =
     (let param = v_parameter v in
      case valueAccessor param consumes of
        None \<Rightarrow> (req, res, Throws ''TypeError'')
      | Some accessor \<Rightarrow>
          (case acc_get accessor req (p_name param) of
             Inl e \<Rightarrow> (req, res, Throws e)
           | Inr val \<Rightarrow>
               (case v_validate v val of
                  Inl e \<Rightarrow>
                    (let err = validation_errinfo param val e
                     in (req, res_send (ValidationErrors [err]) (res_status (status err) res),
                         NotCalled))
                | Inr newvalue \<Rightarrow>
                    (case acc_set accessor req (p_name param) newvalue of
                       Inl e \<Rightarrow> (req, res, Throws e)
                     | Inr req' \<Rightarrow> (req', res, Next None)))))"

section \<open>Authorization\<close>

text \<open>
  A security requirement: the schemes by name, in the order of \<^verbatim>\<open>Object.keys\<close>. A
  scheme's \<open>authorize\<close> callback, when there is one, is called with the scheme's security
  definition as \<open>this\<close> and reports an error or none.
\<close>

record scheme =
  s_authorize :: "(jsval \<Rightarrow> request \<Rightarrow> response \<Rightarrow> jserror option) option"
  s_scopes :: "string list option"

type_synonym security = "(string \<times> scheme) list"

definition unauthorized :: jserror where
  "unauthorized =
     \<lparr>e_message = ''Unauthorized.'', e_name = ''Error'', e_status = None,
      e_title = None, e_description = None\<rparr>"

text \<open>
  \<open>passed(type, pass)\<close> for one scheme. The state it works on is the request (whose
  \<open>requiredScopes\<close> it sets before calling the scheme's callback) and the errors
  collected so far; the boolean is what it hands to \<open>pass\<close>.
\<close>

definition passed ::
  "(string \<times> jsval) list option \<Rightarrow> response \<Rightarrow> string \<times> scheme \<Rightarrow> request \<times> jserror list
     \<Rightarrow> (request \<times> jserror list) \<times> bool" where
  "passed securityDefinitions res entry st =
     (case (entry, st) of
        ((type, sch), (req, errors)) \<Rightarrow>
          (case s_authorize sch of
             Some authorize \<Rightarrow>
               (let securityDefinition =
                      (case securityDefinitions of
                         None \<Rightarrow> JUndefined
                       | Some defs \<Rightarrow> js_get defs type);
                    req' = req\<lparr>req_requiredScopes := s_scopes sch\<rparr>
                in case authorize securityDefinition req' res of
                     Some e \<Rightarrow> ((req', errors @ [e]), False)
                   | None \<Rightarrow> ((req', errors), True))
           | None \<Rightarrow> ((req, errors @ [unauthorized]), False)))"

text \<open>
  \<^verbatim>\<open>async.some(arr, iteratee, done)\<close>, of the library \<open>async\<close>: the iteratee is
  started on every element, in order, and \<open>done\<close> is called once, with \<open>true\<close> when
  the first iteratee passes and with \<open>false\<close> when all have answered and none
  passed. The answers are taken in the order of the calls.
\<close>

fun async_some :: "('a \<Rightarrow> 's \<Rightarrow> 's \<times> bool) \<Rightarrow> 'a list \<Rightarrow> 's \<Rightarrow> 's \<times> bool" where
  "async_some iteratee [] s = (s, False)"
| "async_some iteratee (x # xs) s =
     (case iteratee x s of
        (s', v) \<Rightarrow>
          (case async_some iteratee xs s' of
             (s'', found) \<Rightarrow> (s'', v \<or> found)))"

definition authorizeFor :: "security \<Rightarrow> (string \<times> jsval) list option \<Rightarrow> middleware" where
  "authorizeFor security securityDefinitions req res =
     (case async_some (passed securityDefinitions res) security (req, []) of
        ((req', errors), success) \<Rightarrow>
          if \<not> success
          then (req', res\<lparr>statusCode := Some 401\<rparr>,
                Next (case errors of [] \<Rightarrow> None | e # es \<Rightarrow> Some e))
          else (req', res, Next None))"

section \<open>Routes and their registration\<close>

text \<open>
  The helpers \<open>prefix\<close> and \<open>unsuffix\<close> of the library \<open>swaggerize-routes\<close>: add the
  prefix unless the string starts with it; remove the suffix if the string ends with it.
\<close>

definition utils_prefix :: "string \<Rightarrow> string \<Rightarrow> string" where
  "utils_prefix str pre = (if prefix pre str then str else pre @ str)"

definition utils_unsuffix :: "string \<Rightarrow> string \<Rightarrow> string" where
  "utils_unsuffix str suff =
     (if str \<noteq> [] \<and> suff \<noteq> [] \<and> suffix suff str
      then take (length str - length suff) str
      else str)"

text \<open>
  \<^verbatim>\<open>path.replace(/{([^}]+)}/g, ':$1')\<close>: an opening brace, the longest run of
  characters other than a closing brace (at least one), and the closing brace become a
  colon and the run.
\<close>

function replace_params :: "string \<Rightarrow> string" where
  "replace_params [] = []"
| "replace_params (c # cs) =
     (if c = CHR 0x7B
      then (let name = takeWhile (\<lambda>x. x \<noteq> CHR 0x7D) cs;
                rest = dropWhile (\<lambda>x. x \<noteq> CHR 0x7D) cs
            in if name \<noteq> [] \<and> rest \<noteq> []
               then '':'' @ name @ replace_params (tl rest)
               else c # replace_params cs)
      else c # replace_params cs)"
  by pat_completeness auto
termination
  by (relation "measure length") (auto simp: less_Suc_eq_le length_dropWhile_le le_trans [OF diff_le_self])

definition buildRoutePath :: "string \<Rightarrow> string \<Rightarrow> string" where
  "buildRoutePath mountpath path = mountpath @ utils_prefix (replace_params path) ''/''"

text \<open>
  A route as \<open>swaggerize-routes\<close> derives it. The handler is a function, an array of
  functions, or (after an empty array has been unwrapped) \<open>undefined\<close>.
\<close>

datatype handler = Fn middleware | HandlerArray "middleware list" | HandlerUndefined

record route =
  route_method :: string
  route_path :: string
  route_handler :: handler
  route_validators :: "validator list"
  route_consumes :: "string list option"
  route_produces :: "string list option"
  route_security :: "security option"

text \<open>
  The middleware of the cross-route groups read the module variable \<open>errorName\<close> when
  they make an error, not when they are built: such a middleware is a function of the
  variable's value at the time of the request.
\<close>

type_synonym module_middleware = "string option \<Rightarrow> middleware"

text \<open>
  The router records what is registered on it: \<^verbatim>\<open>router[verb](path, ...before, handler)\<close>
  and \<^verbatim>\<open>router.use(regexp, ...middleware)\<close>, in order. \<open>router_verbs\<close> are the names
  of its verb methods; calling \<^verbatim>\<open>router[name]\<close> for another name throws, and a verb
  method of Express throws when the handler it is given is \<open>undefined\<close>.
\<close>

datatype layer =
    VerbLayer string string "middleware list" handler
  | UseLayer string "module_middleware list"

record router =
  router_verbs :: "string list"
  router_stack :: "layer list"

definition router_verb ::
  "router \<Rightarrow> string \<Rightarrow> string \<Rightarrow> middleware list \<Rightarrow> handler \<Rightarrow> string + router" where
  "router_verb r name path before h =
     (if name \<in> set (router_verbs r)
      then (case h of
              HandlerUndefined \<Rightarrow> Inl ''Error''
            | _ \<Rightarrow> Inr (r\<lparr>router_stack := router_stack r @ [VerbLayer name path before h]\<rparr>))
      else Inl ''TypeError'')"

definition router_use :: "router \<Rightarrow> string \<Rightarrow> module_middleware list \<Rightarrow> router" where
  "router_use r path mws = r\<lparr>router_stack := router_stack r @ [UseLayer path mws]\<rparr>"

text \<open>
  \<open>makeExpressRoute\<close> returns the router and the route, whose \<open>handler\<close> it overwrites
  when the handler is an array.
\<close>

definition makeExpressRoute ::
  "router \<Rightarrow> string \<Rightarrow> route \<Rightarrow> (string \<times> jsval) list option \<Rightarrow> string + (router \<times> route)" where
  "makeExpressRoute r mountpath rt securityDefinitions =
     (let path = buildRoutePath mountpath (route_path rt);
          before = (case route_security rt of
                      Some security \<Rightarrow> [authorizeFor security securityDefinitions]
                    | None \<Rightarrow> []);
          (before, rt) =
             (case route_handler rt of
                HandlerArray hs \<Rightarrow>
                  ((if length hs > 1 then before @ butlast hs else before),
                   rt\<lparr>route_handler := (if hs = [] then HandlerUndefined else Fn (last hs))\<rparr>)
              | _ \<Rightarrow> (before, rt));
          validators = map (\<lambda>v. makeValidator v (route_consumes rt)) (route_validators rt);
          before = before @ validators
      in case router_verb r (route_method rt) path before (route_handler rt) of
           Inl e \<Rightarrow> Inl e
         | Inr r' \<Rightarrow> Inr (r', rt))"

section \<open>The per-path tables and \<open>expressroutes\<close>\<close>

text \<open>
  \<^verbatim>\<open>a.indexOf(v)\<close> and \<^verbatim>\<open>a.filter((v, i, a) => a.indexOf(v) === i)\<close>: an element is kept
  at the position of its first occurrence only.
\<close>

fun indexOf :: "'a list \<Rightarrow> 'a \<Rightarrow> nat option" where
  "indexOf [] v = None"
| "indexOf (x # xs) v = (if x = v then Some 0 else map_option Suc (indexOf xs v))"

definition first_occurrences :: "'a list \<Rightarrow> 'a list" where
  "first_occurrences a = map snd (filter (\<lambda>(i, v). indexOf a v = Some i) (enumerate 0 a))"

text \<open>
  The three objects \<open>routesMethod\<close>, \<open>routesConsumes\<close> and \<open>routesProduces\<close>, keyed
  by resolved path, with the keys in insertion order (resolved paths contain a slash, so
  none is an array index).
\<close>

record tables =
  routesMethod :: "(string \<times> string list) list"
  routesConsumes :: "(string \<times> media_table) list"
  routesProduces :: "(string \<times> media_table) list"

definition empty_tables :: tables where
  "empty_tables = \<lparr>routesMethod = [], routesConsumes = [], routesProduces = []\<rparr>"

text \<open>
  One media table's update for a route:
  \<^verbatim>\<open>t[p] = t[p] || {}; t[p][m] = t[p][m] || []; push(...declared); t[p][m] = filter(...)\<close>.
\<close>

definition record_media ::
  "string \<Rightarrow> string \<Rightarrow> string list option \<Rightarrow> (string \<times> media_table) list
     \<Rightarrow> (string \<times> media_table) list" where
  "record_media routePath m declared t =
     (let forPath = (case map_of t routePath of Some tbl \<Rightarrow> tbl | None \<Rightarrow> []);
          current = media_types_of forPath m;
          pushed = (case declared of
                      Some ds \<Rightarrow> if length ds > 0 then current @ ds else current
                    | None \<Rightarrow> current)
      in AList.update routePath (AList.update m (first_occurrences pushed) forPath) t)"

definition record_route :: "string \<Rightarrow> route \<Rightarrow> tables \<Rightarrow> tables" where
  "record_route mountpath rt t =
     (let m = toLowerCase (route_method rt);
          routePath = buildRoutePath mountpath (route_path rt);
          methods = (case map_of (routesMethod t) routePath of Some ms \<Rightarrow> ms | None \<Rightarrow> [])
      in \<lparr>routesMethod = AList.update routePath (methods @ [m]) (routesMethod t),
          routesConsumes = record_media routePath m (route_consumes rt) (routesConsumes t),
          routesProduces = record_media routePath m (route_produces rt) (routesProduces t)\<rparr>)"

text \<open>
  The body of \<^verbatim>\<open>routes.forEach\<close>: register the route, then record it. The state is the
  router, the routes as left behind (in order) and the tables; a throw ends the loop.
\<close>

fun register_routes ::
  "string \<Rightarrow> (string \<times> jsval) list option \<Rightarrow> route list \<Rightarrow> router \<times> route list \<times> tables
     \<Rightarrow> string + (router \<times> route list \<times> tables)" where
  "register_routes mountpath defs [] st = Inr st"
| "register_routes mountpath defs (rt # rts) (r, done, t) =
     (case makeExpressRoute r mountpath rt defs of
        Inl e \<Rightarrow> Inl e
      | Inr (r', rt') \<Rightarrow>
          register_routes mountpath defs rts (r', done @ [rt'], record_route mountpath rt' t))"

record api =
  api_basePath :: "string option"
  api_securityDefinitions :: "(string \<times> jsval) list option"
  api_paths :: "(string \<times> (string \<times> jsval) list) list option"

record options =
  opt_routes :: "route list option"
  opt_docspath :: "string option"
  opt_api :: api
  opt_errorname :: "string option"

text \<open>\<^verbatim>\<open>s || d\<close> for an optional string: an undefined or empty one gives the default.\<close>

definition or_default :: "string option \<Rightarrow> string \<Rightarrow> string" where
  "or_default s d = (case s of None \<Rightarrow> d | Some x \<Rightarrow> if x = [] then d else x)"

definition docs_handler :: middleware where
  "docs_handler req res = (req, res_send ApiDocument res, NotCalled)"

text \<open>The lookup \<^verbatim>\<open>table[routePath]\<close> for a key of \<open>routesMethod\<close>.\<close>

definition table_at :: "(string \<times> 'a list) list \<Rightarrow> string \<Rightarrow> 'a list" where
  "table_at t routePath = (case map_of t routePath of Some x \<Rightarrow> x | None \<Rightarrow> [])"

text \<open>The older pipeline's \<open>expressroutes\<close>; it returns the router and the options it updated.\<close>

definition use_group_old :: "tables \<Rightarrow> string \<Rightarrow> module_middleware list" where
  "use_group_old t routePath =
     [\<lambda>errorName. buildNotAllowedMiddleware_old (table_at (routesMethod t) routePath),
      \<lambda>errorName. validateContentTypeHeaderMiddleware_old (table_at (routesConsumes t) routePath),
      \<lambda>errorName. validateAcceptHeaderMiddleware_old (table_at (routesProduces t) routePath)
        (table_at (routesConsumes t) routePath)]"

definition expressroutes_old :: "router \<Rightarrow> options \<Rightarrow> string + (router \<times> options)" where
  "expressroutes_old r opts =
     (let routes = (case opt_routes opts of Some rs \<Rightarrow> rs | None \<Rightarrow> []);
          docspath = utils_prefix (or_default (opt_docspath opts) ''/api-docs'') ''/'';
          basePath = utils_prefix (or_default (api_basePath (opt_api opts)) ''/'') ''/'';
          opts = opts\<lparr>opt_docspath := Some docspath,
                        opt_api := (opt_api opts)\<lparr>api_basePath := Some basePath\<rparr>\<rparr>;
          mountpath = utils_unsuffix basePath ''/''
      in case router_verb r ''get'' (mountpath @ docspath) [] (Fn docs_handler) of
           Inl e \<Rightarrow> Inl e
         | Inr r1 \<Rightarrow>
             (case register_routes mountpath (api_securityDefinitions (opt_api opts)) routes
                     (r1, [], empty_tables) of
                Inl e \<Rightarrow> Inl e
              | Inr (r2, routes', t) \<Rightarrow>
                  Inr (fold (\<lambda>routePath rr. router_use rr routePath (use_group_old t routePath))
                         (map fst (routesMethod t)) r2,
                       opts\<lparr>opt_routes := map_option (\<lambda>_. routes') (opt_routes opts)\<rparr>)))"

text \<open>
  \<open>routeFilter\<close> of the newer pipeline: every non-empty level that starts with a colon
  or an opening brace becomes \<open>:x\<close>.
\<close>

definition routeFilter :: "string \<Rightarrow> string" where
  "routeFilter rt =
     fold (\<lambda>level out.
             if level \<noteq> []
             then (if hd level = CHR '':'' \<or> hd level = CHR 0x7B
                   then out @ ''/:x''
                   else out @ ''/'' @ level)
             else out)
          (js_split ''/'' rt) []"

text \<open>
  \<open>appendSwaggerDefinitionsToReq\<close>: the first path of the document whose filtered form
  is the filtered route (less the first occurrence of the base path) gives the
  definition for the request's method; \<^verbatim>\<open>Object.keys\<close> of an absent \<open>paths\<close> throws.
\<close>

definition appendSwaggerDefinitionsToReq :: "string \<Rightarrow> api \<Rightarrow> middleware" where
  "appendSwaggerDefinitionsToReq routePath swaggerDefinitions req res =
     (let rt = js_replace_first (case api_basePath swaggerDefinitions of
                                   Some b \<Rightarrow> b | None \<Rightarrow> ''undefined'') []
                 (routeFilter routePath)
      in case api_paths swaggerDefinitions of
           None \<Rightarrow> (req, res, Throws ''TypeError'')
         | Some paths \<Rightarrow>
             (let key = filter (\<lambda>path. routeFilter path = rt) (map fst paths);
                  swaggerDefinitionForRoute =
                    (case key of
                       [] \<Rightarrow> []
                     | k # ks \<Rightarrow> (case map_of paths k of Some d \<Rightarrow> d | None \<Rightarrow> []))
              in (req\<lparr>req_swaggerDefinition :=
                        js_get swaggerDefinitionForRoute (toLowerCase (req_method req))\<rparr>,
                  res, Next None)))"

definition use_group :: "api \<Rightarrow> tables \<Rightarrow> string \<Rightarrow> module_middleware list" where
  "use_group swaggerDefinitions t routePath =
     [\<lambda>errorName. appendSwaggerDefinitionsToReq routePath swaggerDefinitions,
      \<lambda>errorName. buildNotAllowedMiddleware errorName (table_at (routesMethod t) routePath),
      \<lambda>errorName. validateContentTypeHeaderMiddleware errorName
         (table_at (routesConsumes t) routePath),
      \<lambda>errorName. validateAcceptHeaderMiddleware errorName (table_at (routesProduces t) routePath)
         (table_at (routesConsumes t) routePath)]"

text \<open>
  The newer pipeline's \<open>expressroutes\<close>. The module variable \<open>errorName\<close> is passed
  in and returned: a non-empty \<open>options.errorname\<close> replaces it. The middleware it
  registers read the variable when they run.
\<close>

definition expressroutes ::
  "string option \<Rightarrow> router \<Rightarrow> options \<Rightarrow> string + (router \<times> options \<times> string option)" where
  "expressroutes errorName r opts =
     (let errorName = (case opt_errorname opts of
                         Some n \<Rightarrow> if n \<noteq> [] then Some n else errorName
                       | None \<Rightarrow> errorName);
          routes = (case opt_routes opts of Some rs \<Rightarrow> rs | None \<Rightarrow> []);
          docspath = utils_prefix (or_default (opt_docspath opts) ''/api-docs'') ''/'';
          basePath = utils_prefix (or_default (api_basePath (opt_api opts)) ''/'') ''/'';
          opts = opts\<lparr>opt_docspath := Some docspath,
                        opt_api := (opt_api opts)\<lparr>api_basePath := Some basePath\<rparr>\<rparr>;
          mountpath = utils_unsuffix basePath ''/''
      in case router_verb r ''get'' (mountpath @ docspath) [] (Fn docs_handler) of
           Inl e \<Rightarrow> Inl e
         | Inr r1 \<Rightarrow>
             (case register_routes mountpath (api_securityDefinitions (opt_api opts)) routes
                     (r1, [], empty_tables) of
                Inl e \<Rightarrow> Inl e
              | Inr (r2, routes', t) \<Rightarrow>
                  Inr (fold (\<lambda>routePath rr.
                               router_use rr routePath (use_group (opt_api opts) t routePath))
                         (map fst (routesMethod t)) r2,
                       opts\<lparr>opt_routes := map_option (\<lambda>_. routes') (opt_routes opts)\<rparr>,
                       errorName)))"

section \<open>Scaffolding: \<open>bin/lib/create.js\<close>\<close>

text \<open>
  \<^verbatim>\<open>Object.keys\<close> of a plain object lists the keys that are array indices first, in
  ascending order, then the other keys in insertion order. An array index is the decimal
  form, without leading zeros, of a number below \<open>2\<^sup>3\<^sup>2 - 1\<close>.
\<close>

definition digit_value :: "char \<Rightarrow> nat option" where
  "digit_value c = map_of (zip ''0123456789'' [0, 1, 2, 3, 4, 5, 6, 7, 8, 9]) c"

definition decimal_value :: "string \<Rightarrow> nat" where
  "decimal_value s = fold (\<lambda>c n. 10 * n + (case digit_value c of Some d \<Rightarrow> d | None \<Rightarrow> 0)) s 0"

definition is_array_index :: "string \<Rightarrow> bool" where
  "is_array_index s =
     (s \<noteq> [] \<and> list_all (\<lambda>c. digit_value c \<noteq> None) s \<and> (s = ''0'' \<or> hd s \<noteq> CHR ''0'')
      \<and> decimal_value s < 4294967295)"

definition object_keys :: "string list \<Rightarrow> string list" where
  "object_keys ks =
     sort_key decimal_value (filter is_array_index ks) @ filter (\<lambda>k. \<not> is_array_index k) ks"

text \<open>
  The names every object literal inherits from \<^verbatim>\<open>Object.prototype\<close>: reading one of
  them from \<^verbatim>\<open>{}\<close> gives a truthy value that is not a route.
\<close>

definition object_prototype_names :: "string list" where
  "object_prototype_names =
     [''constructor'', ''__defineGetter__'', ''__defineSetter__'', ''hasOwnProperty'',
      ''__lookupGetter__'', ''__lookupSetter__'', ''isPrototypeOf'', ''propertyIsEnumerable'',
      ''toString'', ''valueOf'', ''__proto__'', ''toLocaleString'']"

text \<open>\<^verbatim>\<open>path.join(a, b)\<close> of Node on POSIX: join with a slash, then normalize.\<close>

fun normalizeString :: "bool \<Rightarrow> string list \<Rightarrow> string list \<Rightarrow> string list" where
  "normalizeString allowAboveRoot acc [] = rev acc"
| "normalizeString allowAboveRoot acc (seg # segs) =
     (if seg = [] \<or> seg = ''.'' then normalizeString allowAboveRoot acc segs
      else if seg = ''..''
      then (case acc of
              [] \<Rightarrow> normalizeString allowAboveRoot (if allowAboveRoot then [''..''] else []) segs
            | a # as \<Rightarrow>
                if a = ''..'' then normalizeString allowAboveRoot (''..'' # a # as) segs
                else normalizeString allowAboveRoot as segs)
      else normalizeString allowAboveRoot (seg # acc) segs)"

definition path_normalize :: "string \<Rightarrow> string" where
  "path_normalize p =
     (if p = [] then ''.''
      else (let isAbsolute = (hd p = CHR ''/'');
                trailingSeparator = (last p = CHR ''/'');
                s = js_join ''/'' (normalizeString (\<not> isAbsolute) [] (js_split ''/'' p))
            in if s = [] then (if isAbsolute then ''/'' else if trailingSeparator then ''./'' else ''.'')
               else (let s = (if trailingSeparator then s @ ''/'' else s)
                     in if isAbsolute then ''/'' @ s else s)))"

definition path_join :: "string \<Rightarrow> string \<Rightarrow> string" where
  "path_join a b =
     (if a = [] \<and> b = [] then ''.''
      else if a = [] then path_normalize b
      else if b = [] then path_normalize a
      else path_normalize (a @ ''/'' @ b))"

text \<open>
  The file system: what exists under each (normalized) path. A path is reached through
  the directories on the way to it, the outermost first (for a relative path, from the
  working directory): the first of them that does not exist gives \<open>ENOENT\<close>, the first
  that is a file gives \<open>ENOTDIR\<close>. \<^verbatim>\<open>mkdirSync\<close> without \<open>recursive\<close> and
  \<^verbatim>\<open>writeFileSync\<close> create the last component only.
\<close>

datatype node = File string | Dir

type_synonym filesystem = "string \<Rightarrow> node option"

definition ancestors :: "string \<Rightarrow> string list" where
  "ancestors p =
     (let dirs = map (js_join ''/'') (butlast (tl (prefixes (js_split ''/'' p))))
      in if p \<noteq> [] \<and> hd p = CHR ''/''
         then map (\<lambda>d. if d = [] then ''/'' else d) dirs
         else ''.'' # dirs)"

fun walk :: "filesystem \<Rightarrow> string list \<Rightarrow> string option" where
  "walk fs [] = None"
| "walk fs (d # ds) =
     (case fs d of
        None \<Rightarrow> Some ''ENOENT''
      | Some (File c) \<Rightarrow> Some ''ENOTDIR''
      | Some Dir \<Rightarrow> walk fs ds)"

definition existsSync :: "filesystem \<Rightarrow> string \<Rightarrow> bool" where
  "existsSync fs p = (fs p \<noteq> None)"

definition mkdirSync :: "filesystem \<Rightarrow> string \<Rightarrow> string + filesystem" where
  "mkdirSync fs p =
     (case walk fs (ancestors p) of
        Some e \<Rightarrow> Inl e
      | None \<Rightarrow> if fs p \<noteq> None then Inl ''EEXIST'' else Inr (fs(p \<mapsto> Dir)))"

definition writeFileSync :: "filesystem \<Rightarrow> string \<Rightarrow> string \<Rightarrow> string + filesystem" where
  "writeFileSync fs p content =
     (case walk fs (ancestors p) of
        Some e \<Rightarrow> Inl e
      | None \<Rightarrow> if fs p = Some Dir then Inl ''EISDIR'' else Inr (fs(p \<mapsto> File content)))"

record operation =
  op_method :: string
  op_nickname :: string
  op_type :: string

record api_entry =
  ae_path :: string
  ae_operations :: "operation list"

record handler_method =
  hm_method :: string
  hm_name :: string
  hm_output :: string

record scaffold_route =
  sr_path :: string
  sr_pathname :: string
  sr_methods :: "handler_method list"

text \<open>
  The first loop of \<open>createHandlers\<close>: the object \<open>routes\<close>, keyed by pathname (the
  non-empty segments of the path that contain no opening brace, joined by slashes), as
  the list of its own properties in insertion order.
\<close>

definition pathname_of :: "string \<Rightarrow> string" where
  "pathname_of p =
     js_join ''/'' (filter (\<lambda>element. element \<noteq> [] \<and> CHR 0x7B \<notin> set element) (js_split ''/'' p))"

definition methods_of :: "api_entry \<Rightarrow> handler_method list" where
  "methods_of a =
     map (\<lambda>operation. \<lparr>hm_method = toLowerCase (op_method operation),
                         hm_name = op_nickname operation,
                         hm_output = op_type operation\<rparr>)
         (ae_operations a)"

fun group_routes ::
  "api_entry list \<Rightarrow> (string \<times> scaffold_route) list \<Rightarrow> string + (string \<times> scaffold_route) list" where
  "group_routes [] routes = Inr routes"
| "group_routes (a # apis) routes =
     (let rt = \<lparr>sr_path = ae_path a, sr_pathname = pathname_of (ae_path a),
                sr_methods = methods_of a\<rparr>
      in case map_of routes (sr_pathname rt) of
           Some existing \<Rightarrow>
             group_routes apis
               (AList.update (sr_pathname rt)
                  (existing\<lparr>sr_methods := sr_methods existing @ sr_methods rt\<rparr>) routes)
         | None \<Rightarrow>
             if sr_pathname rt \<in> set object_prototype_names then Inl ''TypeError''
             else group_routes apis (AList.update (sr_pathname rt) rt routes))"

text \<open>
  The second loop: for one route, make the directory of a nested pathname unless
  something exists there, then write the handler file unless something exists there.
  The state is the file system and the warnings printed; \<open>Some\<close> error is a throw.
\<close>

definition write_handler ::
  "(scaffold_route \<Rightarrow> string) \<Rightarrow> string \<Rightarrow> scaffold_route \<Rightarrow> filesystem \<times> string list
     \<Rightarrow> filesystem \<times> string list \<times> string option" where
  "write_handler template handlersPath rt st =
     (case st of (fs, warnings) \<Rightarrow>
        (let pathnames = js_split ''/'' (sr_pathname rt);
             nested = (length pathnames > 1);
             dir = path_join handlersPath (js_join ''/'' (butlast pathnames));
             made = (if nested
                     then (if existsSync fs dir then Inr (fs, warnings @ [dir])
                           else (case mkdirSync fs dir of
                                   Inl e \<Rightarrow> Inl e
                                 | Inr fs' \<Rightarrow> Inr (fs', warnings)))
                     else Inr (fs, warnings));
             file = (if nested then path_join handlersPath (js_join ''/'' pathnames @ ''.js'')
                     else path_join handlersPath (last pathnames @ ''.js''))
         in case made of
              Inl e \<Rightarrow> (fs, warnings, Some e)
            | Inr (fs1, warnings1) \<Rightarrow>
                if existsSync fs1 file then (fs1, warnings1 @ [file], None)
                else (case writeFileSync fs1 file (template rt) of
                        Inl e \<Rightarrow> (fs1, warnings1, Some e)
                      | Inr fs2 \<Rightarrow> (fs2, warnings1, None))))"

fun write_handlers ::
  "(scaffold_route \<Rightarrow> string) \<Rightarrow> string \<Rightarrow> scaffold_route list \<Rightarrow> filesystem \<times> string list
     \<Rightarrow> filesystem \<times> string list \<times> string option" where
  "write_handlers template handlersPath [] (fs, warnings) = (fs, warnings, None)"
| "write_handlers template handlersPath (rt # rts) (fs, warnings) =
     (case write_handler template handlersPath rt (fs, warnings) of
        (fs', warnings', Some e) \<Rightarrow> (fs', warnings', Some e)
      | (fs', warnings', None) \<Rightarrow> write_handlers template handlersPath rts (fs', warnings'))"

definition keyed_routes :: "(string \<times> scaffold_route) list \<Rightarrow> scaffold_route list" where
  "keyed_routes routes =
     concat (map (\<lambda>routePath. case map_of routes routePath of Some rt \<Rightarrow> [rt] | None \<Rightarrow> [])
               (object_keys (map fst routes)))"

definition createHandlers ::
  "(scaffold_route \<Rightarrow> string) \<Rightarrow> api_entry list \<Rightarrow> string \<Rightarrow> filesystem
     \<Rightarrow> filesystem \<times> string list \<times> string option" where
  "createHandlers template apis handlersPath fs =
     (case group_routes apis [] of
        Inl e \<Rightarrow> (fs, [], Some e)
      | Inr routes \<Rightarrow> write_handlers template handlersPath (keyed_routes routes) (fs, []))"

text \<open>\<open>createModels\<close>: one file per model name, lower-cased, unless it exists.\<close>

fun write_models ::
  "('m \<Rightarrow> string) \<Rightarrow> string \<Rightarrow> (string \<times> 'm) list \<Rightarrow> filesystem \<times> string list
     \<Rightarrow> filesystem \<times> string list \<times> string option" where
  "write_models template modelsPath [] (fs, warnings) = (fs, warnings, None)"
| "write_models template modelsPath ((modelName, model) # ms) (fs, warnings) =
     (let fileName = path_join modelsPath (toLowerCase modelName @ ''.js'')
      in if \<not> existsSync fs fileName
         then (case writeFileSync fs fileName (template model) of
                 Inl e \<Rightarrow> (fs, warnings, Some e)
               | Inr fs' \<Rightarrow> write_models template modelsPath ms (fs', warnings))
         else write_models template modelsPath ms (fs, warnings @ [fileName]))"

definition createModels ::
  "('m \<Rightarrow> string) \<Rightarrow> (string \<times> 'm) list \<Rightarrow> string \<Rightarrow> filesystem
     \<Rightarrow> filesystem \<times> string list \<times> string option" where
  "createModels template models modelsPath fs =
     write_models template modelsPath
       (concat (map (\<lambda>k. case map_of models k of Some m \<Rightarrow> [(k, m)] | None \<Rightarrow> [])
                  (object_keys (map fst models))))
       (fs, [])"

section \<open>Running a chain of middleware\<close>

text \<open>
  The router runs the middleware of one registration in order: each one runs on the
  request and response its predecessor left, and the chain stops at the first one that
  does not call \<^verbatim>\<open>next()\<close> (it answers, forwards an error, or throws).
\<close>

fun run_chain :: "middleware list \<Rightarrow> middleware" where
  "run_chain [] req res = (req, res, Next None)"
| "run_chain (mw # mws) req res =
     (case mw req res of
        (req', res', Next None) \<Rightarrow> run_chain mws req' res'
      | out \<Rightarrow> out)"

text \<open>A cross-route group runs with the value the module variable has at that time.\<close>

definition run_group :: "string option \<Rightarrow> module_middleware list \<Rightarrow> middleware" where
  "run_group errorName mws = run_chain (map (\<lambda>mw. mw errorName) mws)"

section \<open>Concrete inputs\<close>

definition a_request :: "string \<Rightarrow> (string \<times> string) list \<Rightarrow> nat option \<Rightarrow> request" where
  "a_request m hs c =
     \<lparr>req_method = m, req_headers = hs, req_params = [], req_query = [],
      req_body = JUndefined, req_file = None, req_files = None, req_expressroutes = c,
      req_requiredScopes = None, req_swaggerDefinition = JUndefined\<rparr>"

definition a_response :: response where
  "a_response = \<lparr>statusCode = None, res_headers = [], res_body = None\<rparr>"

definition json_only :: media_table where
  "json_only = [(''post'', [''application/json''])]"

definition failing_validator :: "string \<Rightarrow> string \<Rightarrow> bool \<Rightarrow> validator" where
  "failing_validator name loc required =
     \<lparr>v_parameter = \<lparr>p_name = name, p_in = loc, p_required = required, p_type = Some ''string''\<rparr>,
      v_validate = (\<lambda>val. Inl \<lparr>ve_name = Some ''ValidationError'',
                                ve_details = Some [\<lparr>d_message = Some ''must be a string''\<rparr>]\<rparr>)\<rparr>"

definition denied :: jserror where
  "denied =
     \<lparr>e_message = ''denied'', e_name = ''Error'', e_status = None, e_title = None,
      e_description = None\<rparr>"

definition scheme_without_callback :: scheme where
  "scheme_without_callback = \<lparr>s_authorize = None, s_scopes = None\<rparr>"

definition granting_scheme :: scheme where
  "granting_scheme = \<lparr>s_authorize = Some (\<lambda>ctx req res. None), s_scopes = Some [''read'']\<rparr>"

definition denying_scheme :: scheme where
  "denying_scheme = \<lparr>s_authorize = Some (\<lambda>ctx req res. Some denied), s_scopes = Some [''write'']\<rparr>"

definition a_router :: router where
  "a_router = \<lparr>router_verbs = [''get'', ''post'', ''put'', ''delete'', ''patch''], router_stack = []\<rparr>"

definition a_route :: "string \<Rightarrow> string \<Rightarrow> handler \<Rightarrow> string list option \<Rightarrow> route" where
  "a_route m p h media =
     \<lparr>route_method = m, route_path = p, route_handler = h, route_validators = [],
      route_consumes = media, route_produces = media, route_security = None\<rparr>"

definition duplicated_media :: "string list" where
  "duplicated_media = [''application/json'', ''text/xml'', ''application/json'']"

section \<open>Reading the router's stack and the tables\<close>

fun is_use_layer :: "layer \<Rightarrow> bool" where
  "is_use_layer (UseLayer p mws) = True"
| "is_use_layer (VerbLayer m p before h) = False"

fun layer_path :: "layer \<Rightarrow> string" where
  "layer_path (UseLayer p mws) = p"
| "layer_path (VerbLayer m p before h) = p"

text \<open>Every list of media types recorded in a table, for any path and method, is duplicate-free.\<close>

definition distinct_media :: "(string \<times> media_table) list \<Rightarrow> bool" where
  "distinct_media t =
     (\<forall>p tbl m l. map_of t p = Some tbl \<and> map_of tbl m = Some l \<longrightarrow> distinct l)"

definition three_routes :: "route list" where
  "three_routes =
     [a_route ''get'' ''/pets'' (Fn docs_handler) None,
      a_route ''post'' ''/pets'' (Fn docs_handler) (Some [''application/json'']),
      a_route ''get'' ''/pets/{id}'' (HandlerArray [docs_handler, docs_handler]) None]"

definition some_options :: options where
  "some_options =
     \<lparr>opt_routes = Some three_routes, opt_docspath = None,
      opt_api = \<lparr>api_basePath = Some ''/v1'', api_securityDefinitions = None, api_paths = Some []\<rparr>,
      opt_errorname = None\<rparr>"

definition an_operation :: "string \<Rightarrow> string \<Rightarrow> operation" where
  "an_operation m nick = \<lparr>op_method = m, op_nickname = nick, op_type = ''Pet''\<rparr>"

definition pets_apis :: "api_entry list" where
  "pets_apis =
     [\<lparr>ae_path = ''/pets'', ae_operations = [an_operation ''GET'' ''listPets'']\<rparr>,
      \<lparr>ae_path = ''/pets/{id}'', ae_operations = [an_operation ''DELETE'' ''deletePet'']\<rparr>]"

definition deep_apis :: "api_entry list" where
  "deep_apis =
     [\<lparr>ae_path = ''/pets/{id}/toys/{toyId}/parts'',
       ae_operations = [an_operation ''GET'' ''listParts'']\<rparr>]"

definition a_template :: "scaffold_route \<Rightarrow> string" where
  "a_template rt = js_join '','' (map hm_name (sr_methods rt))"

definition handlers_dir :: filesystem where
  "handlers_dir = [''.'' \<mapsto> Dir, ''handlers'' \<mapsto> Dir]"

definition duplicating_options :: options where
  "duplicating_options =
     \<lparr>opt_routes = Some
        [a_route ''post'' ''/pets'' (Fn docs_handler) (Some duplicated_media),
         a_route ''post'' ''/pets'' (Fn docs_handler) (Some [''text/xml'', ''text/plain''])],
      opt_docspath = None,
      opt_api = \<lparr>api_basePath = Some ''/v1'', api_securityDefinitions = None, api_paths = Some []\<rparr>,
      opt_errorname = None\<rparr>"

definition duplicating_tables :: tables where
  "duplicating_tables =
     \<lparr>routesMethod = [(''/v1/pets'', [''post'', ''post''])],
      routesConsumes =
        [(''/v1/pets'', [(''post'', [''application/json'', ''text/xml'', ''text/plain''])])],
      routesProduces =
        [(''/v1/pets'', [(''post'', [''application/json'', ''text/xml'', ''text/plain''])])]\<rparr>"

text \<open>
  What \<open>makeExpressRoute\<close> leaves as the route's handler, and the registration it makes
  for a route: authorization first, then the pre-handlers, then the validators, then the
  handler.
\<close>

definition final_handler :: "handler \<Rightarrow> handler" where
  "final_handler h =
     (case h of
        HandlerArray hs \<Rightarrow> if hs = [] then HandlerUndefined else Fn (last hs)
      | _ \<Rightarrow> h)"

definition route_layer :: "string \<Rightarrow> (string \<times> jsval) list option \<Rightarrow> route \<Rightarrow> layer" where
  "route_layer mountpath defs rt =
     VerbLayer (route_method rt) (buildRoutePath mountpath (route_path rt))
       ((case route_security rt of
           Some security \<Rightarrow> [authorizeFor security defs]
         | None \<Rightarrow> [])
        @ (case route_handler rt of HandlerArray hs \<Rightarrow> butlast hs | _ \<Rightarrow> [])
        @ map (\<lambda>v. makeValidator v (route_consumes rt)) (route_validators rt))
       (final_handler (route_handler rt))"

text \<open>Both media tables have entries for the same paths and methods.\<close>

definition same_entries :: "tables \<Rightarrow> bool" where
  "same_entries t =
     (\<forall>p m. (map_of (table_at (routesProduces t) p) m = None)
              = (map_of (table_at (routesConsumes t) p) m = None))"

text \<open>The group registered for a path: the middleware of the first \<open>use\<close> layer at it.\<close>

fun group_at :: "layer list \<Rightarrow> string \<Rightarrow> module_middleware list" where
  "group_at [] p = []"
| "group_at (UseLayer q mws # ls) p = (if q = p then mws else group_at ls p)"
| "group_at (VerbLayer m q before h # ls) p = group_at ls p"

text \<open>
  One route, \<open>POST /pets\<close>: in \<open>posting_options\<close> it consumes and produces
  \<open>application/json\<close>, in \<open>consuming_options\<close> it consumes \<open>application/json\<close> and
  declares nothing that it produces.
\<close>

definition an_api :: api where
  "an_api = \<lparr>api_basePath = Some ''/v1'', api_securityDefinitions = None, api_paths = Some []\<rparr>"

definition posting_options :: options where
  "posting_options =
     \<lparr>opt_routes = Some [a_route ''post'' ''/pets'' (Fn docs_handler) (Some [''application/json''])],
      opt_docspath = None, opt_api = an_api, opt_errorname = None\<rparr>"

definition consuming_options :: options where
  "consuming_options =
     \<lparr>opt_routes = Some [(a_route ''post'' ''/pets'' (Fn docs_handler) (Some [''application/json'']))
                          \<lparr>route_produces := None\<rparr>],
      opt_docspath = None, opt_api = an_api, opt_errorname = None\<rparr>"

definition plain_text_post :: request where
  "plain_text_post = a_request ''POST'' [(''content-type'', ''text/plain''), (''accept'', ''*/*'')] None"

definition json_post :: request where
  "json_post =
     a_request ''POST'' [(''content-type'', ''application/json''), (''accept'', ''application/json'')] None"

section \<open>Helper facts\<close>

subsection \<open>Strings and matching\<close>

lemma js_includes_sublist: "js_includes s sub \<longleftrightarrow> sublist sub s"
  by (induction s) (auto simp: sublist_Cons_right)

lemma validated_iff:
  "validated headers mediaTypes \<longleftrightarrow> (\<exists>v\<in>set headers. \<exists>mt\<in>set mediaTypes. sublist mt v)"
  by (simp add: validated_def list_ex_iff js_includes_sublist)

lemma content_type_name:
  "(name \<noteq> [] \<and> toLowerCase name = ''content-type'') = (toLowerCase name = ''content-type'')"
  by (auto simp: toLowerCase_def)

subsection \<open>Authorization\<close>

lemma async_some_passed_all_fail:
  "\<forall>entry\<in>set security. \<forall>type sch. entry = (type, sch) \<longrightarrow>
      (case s_authorize sch of
         None \<Rightarrow> True
       | Some authorize \<Rightarrow>
           authorize (case defs of None \<Rightarrow> JUndefined | Some d \<Rightarrow> js_get d type)
             (req\<lparr>req_requiredScopes := s_scopes sch\<rparr>) res \<noteq> None)
   \<Longrightarrow> \<exists>x'. async_some (passed defs res) security (req\<lparr>req_requiredScopes := x\<rparr>, errors)
          = ((req\<lparr>req_requiredScopes := x'\<rparr>,
              errors @ map (\<lambda>(type, sch).
                  case s_authorize sch of
                    None \<Rightarrow> unauthorized
                  | Some authorize \<Rightarrow>
                      the (authorize (case defs of None \<Rightarrow> JUndefined | Some d \<Rightarrow> js_get d type)
                             (req\<lparr>req_requiredScopes := s_scopes sch\<rparr>) res)) security),
             False)"
proof (induction security arbitrary: x errors)
  case Nil
  then show ?case by auto
next
  case (Cons entry rest)
  obtain type sch where entry: "entry = (type, sch)" by (cases entry)
  show ?case
  proof (cases "s_authorize sch")
    case None
    from Cons.prems have rest: "\<forall>entry\<in>set rest. \<forall>type sch. entry = (type, sch) \<longrightarrow>
      (case s_authorize sch of
         None \<Rightarrow> True
       | Some authorize \<Rightarrow>
           authorize (case defs of None \<Rightarrow> JUndefined | Some d \<Rightarrow> js_get d type)
             (req\<lparr>req_requiredScopes := s_scopes sch\<rparr>) res \<noteq> None)"
      by simp
    from Cons.IH [OF rest, of x "errors @ [unauthorized]"] entry None
    show ?thesis by (simp add: passed_def)
  next
    case (Some authorize)
    from Cons.prems have rest: "\<forall>entry\<in>set rest. \<forall>type sch. entry = (type, sch) \<longrightarrow>
      (case s_authorize sch of
         None \<Rightarrow> True
       | Some authorize \<Rightarrow>
           authorize (case defs of None \<Rightarrow> JUndefined | Some d \<Rightarrow> js_get d type)
             (req\<lparr>req_requiredScopes := s_scopes sch\<rparr>) res \<noteq> None)"
      by simp
    from Cons.prems entry Some obtain e where e:
      "authorize (case defs of None \<Rightarrow> JUndefined | Some d \<Rightarrow> js_get d type)
         (req\<lparr>req_requiredScopes := s_scopes sch\<rparr>) res = Some e"
      by auto
    from Cons.IH [OF rest, of "s_scopes sch" "errors @ [e]"] entry Some e
    show ?thesis by (simp add: passed_def)
  qed
qed

lemma passed_shape:
  "\<exists>x' errors' b. passed defs res (type, sch) (req\<lparr>req_requiredScopes := x\<rparr>, errors)
      = ((req\<lparr>req_requiredScopes := x'\<rparr>, errors'), b)"
  by (auto simp: passed_def Let_def split: option.splits)

lemma passed_success:
  "s_authorize sch = Some authorize \<Longrightarrow>
   authorize (case defs of None \<Rightarrow> JUndefined | Some d \<Rightarrow> js_get d type)
     (req\<lparr>req_requiredScopes := s_scopes sch\<rparr>) res = None
   \<Longrightarrow> passed defs res (type, sch) (req\<lparr>req_requiredScopes := x\<rparr>, errors)
        = ((req\<lparr>req_requiredScopes := s_scopes sch\<rparr>, errors), True)"
  by (simp add: passed_def)

lemma snd_async_some_Cons:
  "snd (async_some iteratee (x # xs) s)
     = (snd (iteratee x s) \<or> snd (async_some iteratee xs (fst (iteratee x s))))"
  by (simp split: prod.splits)

lemma async_some_passed_one_succeeds:
  "(type, sch) \<in> set security \<Longrightarrow> s_authorize sch = Some authorize \<Longrightarrow>
   authorize (case defs of None \<Rightarrow> JUndefined | Some d \<Rightarrow> js_get d type)
     (req\<lparr>req_requiredScopes := s_scopes sch\<rparr>) res = None
   \<Longrightarrow> snd (async_some (passed defs res) security (req\<lparr>req_requiredScopes := x\<rparr>, errors))"
proof (induction security arbitrary: x errors)
  case Nil
  then show ?case by simp
next
  case (Cons entry rest)
  obtain type' sch' where entry: "entry = (type', sch')" by (cases entry)
  obtain x' errors' b where step:
    "passed defs res (type', sch') (req\<lparr>req_requiredScopes := x\<rparr>, errors)
      = ((req\<lparr>req_requiredScopes := x'\<rparr>, errors'), b)"
    using passed_shape by blast
  show ?case
  proof (cases b)
    case True
    with entry step show ?thesis by (simp only: snd_async_some_Cons) simp
  next
    case False
    have "entry \<noteq> (type, sch)"
    proof
      assume "entry = (type, sch)"
      with entry step False passed_success [OF Cons.prems(2) Cons.prems(3), of x errors]
      show False by simp
    qed
    with Cons.prems have "(type, sch) \<in> set rest" by simp
    from Cons.IH [OF this Cons.prems(2) Cons.prems(3), of x' errors'] entry step False
    show ?thesis by (simp only: snd_async_some_Cons) simp
  qed
qed

lemma req_scopes_self: "req\<lparr>req_requiredScopes := req_requiredScopes req\<rparr> = req"
  by simp

subsection \<open>Routes, tables and the router's stack\<close>

lemma makeExpressRoute_route:
  "makeExpressRoute r mountpath rt defs = Inr (r', rt') \<Longrightarrow>
   rt' = rt\<lparr>route_handler :=
            (case route_handler rt of
               HandlerArray hs \<Rightarrow> if hs = [] then HandlerUndefined else Fn (last hs)
             | h \<Rightarrow> h)\<rparr>"
  by (auto simp: makeExpressRoute_def Let_def split: handler.splits sum.splits if_splits)

lemma distinct_first_occurrences: "distinct (first_occurrences a)"
  by (auto simp: first_occurrences_def distinct_map inj_on_def)

lemma indexOf_Some_iff:
  "indexOf a v = Some i \<longleftrightarrow> i < length a \<and> a ! i = v \<and> (\<forall>j<i. a ! j \<noteq> v)"
proof (induction a arbitrary: i)
  case Nil
  then show ?case by simp
next
  case (Cons x xs)
  show ?case
  proof (cases "x = v")
    case True
    then show ?thesis by (cases i) auto
  next
    case False
    show ?thesis
    proof (cases i)
      case 0
      with False show ?thesis by simp
    next
      case (Suc k)
      with False Cons.IH [of k] show ?thesis
        by (auto simp: less_Suc_eq_0_disj)
    qed
  qed
qed

lemma indexOf_None_iff: "indexOf a v = None \<longleftrightarrow> v \<notin> set a"
  by (induction a) auto

lemma set_first_occurrences: "set (first_occurrences a) = set a"
proof
  show "set (first_occurrences a) \<subseteq> set a"
    by (auto simp: first_occurrences_def in_set_enumerate_eq)
  show "set a \<subseteq> set (first_occurrences a)"
  proof
    fix v assume "v \<in> set a"
    then obtain i where i: "indexOf a v = Some i"
      using indexOf_None_iff [of a v] by (cases "indexOf a v") auto
    then have "(i, v) \<in> set (enumerate 0 a)"
      by (simp add: indexOf_Some_iff in_set_enumerate_eq)
    with i show "v \<in> set (first_occurrences a)"
      by (force simp: first_occurrences_def)
  qed
qed

lemma distinct_media_record_media:
  assumes inv: "distinct_media t"
  shows "distinct_media (record_media routePath m declared t)"
  unfolding distinct_media_def
proof (intro allI impI)
  fix p tbl m' l
  define forPath where "forPath = (case map_of t routePath of Some tbl \<Rightarrow> tbl | None \<Rightarrow> [])"
  define pushed where "pushed =
    (case declared of
       Some ds \<Rightarrow> if length ds > 0 then media_types_of forPath m @ ds else media_types_of forPath m
     | None \<Rightarrow> media_types_of forPath m)"
  have rm: "record_media routePath m declared t
      = AList.update routePath (AList.update m (first_occurrences pushed) forPath) t"
    by (simp only: record_media_def Let_def forPath_def pushed_def)
  assume a: "map_of (record_media routePath m declared t) p = Some tbl \<and> map_of tbl m' = Some l"
  show "distinct l"
  proof (cases "p = routePath")
    case True
    with a rm have tbl: "tbl = AList.update m (first_occurrences pushed) forPath"
      by (simp add: update_conv')
    show ?thesis
    proof (cases "m' = m")
      case True
      with a tbl have "l = first_occurrences pushed" by (simp add: update_conv')
      then show ?thesis by (simp add: distinct_first_occurrences)
    next
      case False
      with a tbl have l: "map_of forPath m' = Some l" by (simp add: update_conv')
      then obtain tbl0 where "map_of t routePath = Some tbl0" and "forPath = tbl0"
        by (cases "map_of t routePath") (auto simp: forPath_def)
      with l inv show ?thesis unfolding distinct_media_def by blast
    qed
  next
    case False
    with a rm have "map_of t p = Some tbl" by (simp add: update_conv')
    with a inv show ?thesis unfolding distinct_media_def by blast
  qed
qed

lemma distinct_media_record_route:
  "distinct_media (routesConsumes t) \<Longrightarrow> distinct_media (routesProduces t) \<Longrightarrow>
   distinct_media (routesConsumes (record_route mountpath rt t))
   \<and> distinct_media (routesProduces (record_route mountpath rt t))"
  by (simp add: record_route_def Let_def distinct_media_record_media)

lemma distinct_media_fold:
  "distinct_media (routesConsumes t) \<Longrightarrow> distinct_media (routesProduces t) \<Longrightarrow>
   distinct_media (routesConsumes (fold (record_route mountpath) routes t))
   \<and> distinct_media (routesProduces (fold (record_route mountpath) routes t))"
proof (induction routes arbitrary: t)
  case Nil
  then show ?case by simp
next
  case (Cons rt rts)
  from distinct_media_record_route [OF Cons.prems, of mountpath rt]
  have "distinct_media (routesConsumes (record_route mountpath rt t))"
    and "distinct_media (routesProduces (record_route mountpath rt t))"
    by simp_all
  from Cons.IH [OF this] show ?case by simp
qed

lemma distinct_media_lookup:
  assumes "distinct_media t"
  shows "distinct (media_types_of (table_at t routePath) m)"
proof (cases "map_of t routePath")
  case None
  then show ?thesis by (simp add: media_types_of_def table_at_def)
next
  case tbl: (Some tbl)
  show ?thesis
  proof (cases "map_of tbl m")
    case None
    with tbl show ?thesis by (simp add: media_types_of_def table_at_def)
  next
    case (Some l)
    with tbl assms have "distinct l" unfolding distinct_media_def by blast
    with tbl Some show ?thesis by (simp add: media_types_of_def table_at_def)
  qed
qed

lemma accept_media_types_cases:
  "accept_media_types produces consumes m = media_types_of produces m
   \<or> accept_media_types produces consumes m = media_types_of consumes m"
  by (cases "map_of produces m") (simp_all add: accept_media_types_def media_types_of_def)

lemma makeExpressRoute_registers:
  assumes "route_method rt \<in> set (router_verbs r)"
    and "route_handler rt \<noteq> HandlerUndefined" and "route_handler rt \<noteq> HandlerArray []"
  shows "makeExpressRoute r mountpath rt defs
           = Inr (r\<lparr>router_stack := router_stack r @ [route_layer mountpath defs rt]\<rparr>,
                  rt\<lparr>route_handler := final_handler (route_handler rt)\<rparr>)"
proof (cases "route_handler rt")
  case (Fn f)
  with assms show ?thesis
    by (simp add: makeExpressRoute_def Let_def router_verb_def route_layer_def final_handler_def)
next
  case (HandlerArray hs)
  have "length hs \<le> 1 \<Longrightarrow> butlast hs = []" by (cases hs) auto
  with HandlerArray assms show ?thesis
    by (auto simp: makeExpressRoute_def Let_def router_verb_def route_layer_def final_handler_def)
next
  case HandlerUndefined
  with assms show ?thesis by simp
qed

lemma makeExpressRoute_throws:
  assumes "route_handler rt = HandlerUndefined \<or> route_handler rt = HandlerArray []"
  shows "\<exists>e. makeExpressRoute r mountpath rt defs = Inl e"
  using assms by (auto simp: makeExpressRoute_def Let_def router_verb_def)

lemma makeExpressRoute_appends:
  assumes "makeExpressRoute r mountpath rt defs = Inr (r', rt')"
  shows "\<exists>l. router_stack r' = router_stack r @ [l]"
  using assms
  by (auto simp: makeExpressRoute_def Let_def router_verb_def
      split: handler.splits sum.splits if_splits)

lemma record_route_handler:
  "record_route mountpath (rt\<lparr>route_handler := h\<rparr>) t = record_route mountpath rt t"
  by (simp add: record_route_def Let_def)

lemma register_routes_Cons_Inr:
  assumes "register_routes mountpath defs (rt # rts) (r, done, t) = Inr (r', routes', t')"
  obtains r1 rt1 where "makeExpressRoute r mountpath rt defs = Inr (r1, rt1)"
    and "register_routes mountpath defs rts (r1, done @ [rt1], record_route mountpath rt1 t)
           = Inr (r', routes', t')"
proof (cases "makeExpressRoute r mountpath rt defs")
  case (Inl e)
  with assms show ?thesis by simp
next
  case (Inr p)
  obtain r1 rt1 where p: "p = (r1, rt1)" by (cases p)
  with Inr assms that show ?thesis by simp
qed

text \<open>
  When the loop of \<open>expressroutes\<close> ends without a throw, the tables are those that
  recording the routes one after the other gives, and the router has one more layer per
  route.
\<close>

lemma register_routes_tables:
  "register_routes mountpath defs routes (r, done, t) = Inr (r', routes', t') \<Longrightarrow>
   t' = fold (record_route mountpath) routes t
   \<and> (\<exists>vs. router_stack r' = router_stack r @ vs \<and> length vs = length routes)"
proof (induction routes arbitrary: r "done" t)
  case Nil
  then show ?case by simp
next
  case (Cons rt rts)
  from Cons.prems obtain r1 rt1 where step: "makeExpressRoute r mountpath rt defs = Inr (r1, rt1)"
    and rest: "register_routes mountpath defs rts (r1, done @ [rt1], record_route mountpath rt1 t)
               = Inr (r', routes', t')"
    by (rule register_routes_Cons_Inr)
  from makeExpressRoute_route [OF step]
  have same: "record_route mountpath rt1 t = record_route mountpath rt t"
    by (simp add: record_route_handler)
  from makeExpressRoute_appends [OF step] obtain l where l: "router_stack r1 = router_stack r @ [l]"
    by blast
  from Cons.IH [OF rest] obtain vs where t': "t' = fold (record_route mountpath) rts (record_route mountpath rt1 t)"
    and vs: "router_stack r' = router_stack r1 @ vs" "length vs = length rts"
    by blast
  from t' same have "t' = fold (record_route mountpath) (rt # rts) t" by simp
  moreover from vs l have "router_stack r' = router_stack r @ (l # vs)" "length (l # vs) = length (rt # rts)"
    by simp_all
  ultimately show ?case by blast
qed

text \<open>
  When the router has every route's method and every route has a handler, the loop
  does not throw, and the layers it adds are the routes' registrations.
\<close>

lemma register_routes_registers:
  "\<forall>rt\<in>set routes. route_method rt \<in> set (router_verbs r)
      \<and> route_handler rt \<noteq> HandlerUndefined \<and> route_handler rt \<noteq> HandlerArray [] \<Longrightarrow>
   register_routes mountpath defs routes (r, done, t)
     = Inr (r\<lparr>router_stack := router_stack r @ map (route_layer mountpath defs) routes\<rparr>,
            done @ map (\<lambda>rt. rt\<lparr>route_handler := final_handler (route_handler rt)\<rparr>) routes,
            fold (record_route mountpath) routes t)"
proof (induction routes arbitrary: r "done" t)
  case Nil
  then show ?case by simp
next
  case (Cons rt rts)
  let ?r1 = "r\<lparr>router_stack := router_stack r @ [route_layer mountpath defs rt]\<rparr>"
  let ?rt1 = "rt\<lparr>route_handler := final_handler (route_handler rt)\<rparr>"
  from Cons.prems have step: "makeExpressRoute r mountpath rt defs = Inr (?r1, ?rt1)"
    by (intro makeExpressRoute_registers) simp_all
  from Cons.prems have "\<forall>rt\<in>set rts. route_method rt \<in> set (router_verbs ?r1)
      \<and> route_handler rt \<noteq> HandlerUndefined \<and> route_handler rt \<noteq> HandlerArray []"
    by simp
  from Cons.IH [OF this, of "done @ [?rt1]" "record_route mountpath ?rt1 t"] step
  show ?case by (simp add: record_route_handler)
qed

lemma record_route_keys:
  "map fst (routesMethod (record_route mountpath rt t))
     = (if buildRoutePath mountpath (route_path rt) \<in> set (map fst (routesMethod t))
        then map fst (routesMethod t)
        else map fst (routesMethod t) @ [buildRoutePath mountpath (route_path rt)])"
  by (simp add: record_route_def Let_def update_keys)

lemma fold_record_route_keys:
  "distinct (map fst (routesMethod t)) \<Longrightarrow>
   distinct (map fst (routesMethod (fold (record_route mountpath) routes t)))
   \<and> set (map fst (routesMethod (fold (record_route mountpath) routes t)))
       = set (map fst (routesMethod t)) \<union> (\<lambda>rt. buildRoutePath mountpath (route_path rt)) ` set routes"
proof (induction routes arbitrary: t)
  case Nil
  then show ?case by simp
next
  case (Cons rt rts)
  have d: "distinct (map fst (routesMethod (record_route mountpath rt t)))"
    using Cons.prems by (simp add: record_route_keys)
  have s: "set (map fst (routesMethod (record_route mountpath rt t)))
      = insert (buildRoutePath mountpath (route_path rt)) (set (map fst (routesMethod t)))"
    by (auto simp: record_route_keys)
  from Cons.IH [OF d] s show ?case by auto
qed

lemma fold_router_use:
  "router_stack (fold (\<lambda>routePath rr. router_use rr routePath (g routePath)) ps r)
     = router_stack r @ map (\<lambda>routePath. UseLayer routePath (g routePath)) ps"
  by (induction ps arbitrary: r) (simp_all add: router_use_def)

lemma fold_router_use_eq:
  "fold (\<lambda>routePath rr. router_use rr routePath (g routePath)) ps r
     = r\<lparr>router_stack := router_stack r @ map (\<lambda>routePath. UseLayer routePath (g routePath)) ps\<rparr>"
  by (induction ps arbitrary: r) (simp_all add: router_use_def)

subsection \<open>Scaffolding\<close>

lemma group_routes_pets: "group_routes pets_apis [] = Inr [(''pets'',
    \<lparr>sr_path = ''/pets'', sr_pathname = ''pets'',
     sr_methods = [\<lparr>hm_method = ''get'', hm_name = ''listPets'', hm_output = ''Pet''\<rparr>,
                   \<lparr>hm_method = ''delete'', hm_name = ''deletePet'', hm_output = ''Pet''\<rparr>]\<rparr>)]"
  by (simp add: pets_apis_def an_operation_def pathname_of_def methods_of_def js_split_def
      toLowerCase_def toLowerChar_def object_prototype_names_def Let_def)

lemma group_routes_deep: "group_routes deep_apis [] = Inr [(''pets/toys/parts'',
    \<lparr>sr_path = ''/pets/{id}/toys/{toyId}/parts'', sr_pathname = ''pets/toys/parts'',
     sr_methods = [\<lparr>hm_method = ''get'', hm_name = ''listParts'', hm_output = ''Pet''\<rparr>]\<rparr>)]"
  by (simp add: deep_apis_def an_operation_def pathname_of_def methods_of_def js_split_def
      toLowerCase_def toLowerChar_def object_prototype_names_def Let_def)

lemma object_keys_pets: "object_keys [''pets''] = [''pets'']"
  by (simp add: object_keys_def is_array_index_def digit_value_def)

lemma object_keys_deep: "object_keys [''pets/toys/parts''] = [''pets/toys/parts'']"
  by (simp add: object_keys_def is_array_index_def digit_value_def)

lemma path_join_pets: "path_join ''handlers'' ''pets.js'' = ''handlers/pets.js''"
  by (simp add: path_join_def path_normalize_def js_split_def Let_def)

lemma path_join_deep: "path_join ''handlers'' ''pets/toys'' = ''handlers/pets/toys''"
  by (simp add: path_join_def path_normalize_def js_split_def Let_def)

lemma ancestors_pets: "ancestors ''handlers/pets.js'' = [''.'', ''handlers'']"
  by (simp add: ancestors_def js_split_def Let_def)

lemma ancestors_deep: "ancestors ''handlers/pets/toys'' = [''.'', ''handlers'', ''handlers/pets'']"
  by (simp add: ancestors_def js_split_def Let_def)

lemma mkdirSync_keeps: "mkdirSync fs d = Inr fs' \<Longrightarrow> fs p = Some x \<Longrightarrow> fs' p = Some x"
  by (auto simp: mkdirSync_def split: if_splits option.splits node.splits)

lemma writeFileSync_new_keeps:
  "writeFileSync fs f c = Inr fs' \<Longrightarrow> \<not> existsSync fs f \<Longrightarrow> fs p = Some x \<Longrightarrow> fs' p = Some x"
  by (auto simp: writeFileSync_def existsSync_def split: if_splits option.splits node.splits)

lemma write_handler_keeps:
  assumes "write_handler template handlersPath rt (fs, warnings) = (fs', warnings', err)"
    and "fs p = Some x"
  shows "fs' p = Some x"
proof -
  let ?pathnames = "js_split ''/'' (sr_pathname rt)"
  let ?dir = "path_join handlersPath (js_join ''/'' (butlast ?pathnames))"
  let ?file = "(if length ?pathnames > 1
                then path_join handlersPath (js_join ''/'' ?pathnames @ ''.js'')
                else path_join handlersPath (last ?pathnames @ ''.js''))"
  let ?made = "(if length ?pathnames > 1
                then (if existsSync fs ?dir then Inr (fs, warnings @ [?dir])
                      else (case mkdirSync fs ?dir of
                              Inl e \<Rightarrow> Inl e
                            | Inr fs' \<Rightarrow> Inr (fs', warnings)))
                else Inr (fs, warnings))"
  show ?thesis
  proof (cases ?made)
    case (Inl e)
    with assms show ?thesis by (simp add: write_handler_def Let_def)
  next
    case (Inr st)
    obtain fs1 warnings1 where st: "st = (fs1, warnings1)" by (cases st)
    from Inr st have k1: "fs1 p = Some x"
      using assms(2) mkdirSync_keeps [of fs ?dir fs1 p x]
      by (auto split: if_splits sum.splits)
    show ?thesis
    proof (cases "existsSync fs1 ?file")
      case True
      with Inr st assms(1) k1 show ?thesis by (simp add: write_handler_def Let_def)
    next
      case False
      show ?thesis
      proof (cases "writeFileSync fs1 ?file (template rt)")
        case (Inl e)
        with False Inr st assms(1) k1 show ?thesis by (simp add: write_handler_def Let_def)
      next
        case w: (Inr fs2)
        from writeFileSync_new_keeps [OF w False k1] have "fs2 p = Some x" .
        with w False Inr st assms(1) show ?thesis by (simp add: write_handler_def Let_def)
      qed
    qed
  qed
qed

lemma write_handlers_keeps:
  "write_handlers template handlersPath rts (fs, warnings) = (fs', warnings', err) \<Longrightarrow>
   fs p = Some x \<Longrightarrow> fs' p = Some x"
proof (induction rts arbitrary: fs warnings)
  case Nil
  then show ?case by simp
next
  case (Cons rt rts)
  obtain fs1 warnings1 err1 where step:
    "write_handler template handlersPath rt (fs, warnings) = (fs1, warnings1, err1)"
    by (cases "write_handler template handlersPath rt (fs, warnings)") auto
  from write_handler_keeps [OF step Cons.prems(2)] have k: "fs1 p = Some x" .
  show ?case
  proof (cases err1)
    case None
    with step Cons.prems(1) have "write_handlers template handlersPath rts (fs1, warnings1)
        = (fs', warnings', err)" by simp
    from Cons.IH [OF this k] show ?thesis .
  next
    case (Some e)
    with step Cons.prems(1) k show ?thesis by simp
  qed
qed

lemma createHandlers_keeps_existing:
  "createHandlers template apis handlersPath fs = (fs', warnings, err) \<Longrightarrow>
   fs p = Some x \<Longrightarrow> fs' p = Some x"
  by (cases "group_routes apis []") (auto simp: createHandlers_def dest: write_handlers_keeps)

lemma write_models_keeps:
  "write_models template modelsPath ms (fs, warnings) = (fs', warnings', err) \<Longrightarrow>
   fs p = Some x \<Longrightarrow> fs' p = Some x"
proof (induction ms arbitrary: fs warnings)
  case Nil
  then show ?case by simp
next
  case (Cons entry ms)
  obtain modelName model where entry: "entry = (modelName, model)" by (cases entry)
  let ?fileName = "path_join modelsPath (toLowerCase modelName @ ''.js'')"
  show ?case
  proof (cases "existsSync fs ?fileName")
    case True
    with Cons.prems(1) entry have "write_models template modelsPath ms (fs, warnings @ [?fileName])
        = (fs', warnings', err)" by (simp add: Let_def)
    from Cons.IH [OF this Cons.prems(2)] show ?thesis .
  next
    case False
    show ?thesis
    proof (cases "writeFileSync fs ?fileName (template model)")
      case (Inl e)
      with False Cons.prems entry show ?thesis by (simp add: Let_def)
    next
      case w: (Inr fs1)
      from writeFileSync_new_keeps [OF w False Cons.prems(2)] have k: "fs1 p = Some x" .
      from w False Cons.prems(1) entry have "write_models template modelsPath ms (fs1, warnings)
          = (fs', warnings', err)" by (simp add: Let_def)
      from Cons.IH [OF this k] show ?thesis .
    qed
  qed
qed

lemma createModels_keeps_existing:
  "createModels template models modelsPath fs = (fs', warnings, err) \<Longrightarrow>
   fs p = Some x \<Longrightarrow> fs' p = Some x"
  unfolding createModels_def by (rule write_models_keeps)

subsection \<open>What the tables hold\<close>

lemma record_route_methods:
  "table_at (routesMethod (record_route mountpath rt t)) p
     = (if p = buildRoutePath mountpath (route_path rt)
        then table_at (routesMethod t) p @ [toLowerCase (route_method rt)]
        else table_at (routesMethod t) p)"
  by (simp add: record_route_def Let_def table_at_def update_conv')

lemma fold_record_route_methods:
  "table_at (routesMethod (fold (record_route mountpath) routes t)) p
     = table_at (routesMethod t) p
       @ map (\<lambda>rt. toLowerCase (route_method rt))
           (filter (\<lambda>rt. buildRoutePath mountpath (route_path rt) = p) routes)"
  by (induction routes arbitrary: t) (simp_all add: record_route_methods)

lemma fold_record_route_media_distinct:
  fixes mountpath routes
  defines "t \<equiv> fold (record_route mountpath) routes empty_tables"
  shows "distinct (media_types_of (table_at (routesConsumes t) routePath) m)
     \<and> distinct (media_types_of (table_at (routesProduces t) routePath) m)
     \<and> distinct (accept_media_types (table_at (routesProduces t) routePath)
                   (table_at (routesConsumes t) routePath) m)"
proof -
  have "distinct_media (routesConsumes empty_tables)" "distinct_media (routesProduces empty_tables)"
    by (simp_all add: empty_tables_def distinct_media_def)
  from distinct_media_fold [OF this, of mountpath routes]
  have c: "distinct_media (routesConsumes t)" and p: "distinct_media (routesProduces t)"
    by (simp_all add: t_def)
  have dc: "distinct (media_types_of (table_at (routesConsumes t) routePath) m)"
    by (rule distinct_media_lookup [OF c])
  have dp: "distinct (media_types_of (table_at (routesProduces t) routePath) m)"
    by (rule distinct_media_lookup [OF p])
  from accept_media_types_cases [of "table_at (routesProduces t) routePath"
      "table_at (routesConsumes t) routePath" m] dc dp
  have "distinct (accept_media_types (table_at (routesProduces t) routePath)
                   (table_at (routesConsumes t) routePath) m)"
    by auto
  with dc dp show ?thesis by simp
qed

text \<open>
  Recording a route writes an entry for its path and method into the table of produced
  media types and into the table of consumed ones, whatever the route declares. So the
  two tables have entries for the same paths and methods, and where the table of produced
  media types has none, the table of consumed ones has none either: the list the Accept
  middleware uses is the one of the produced media types, always.
\<close>

lemma record_media_lookup:
  "map_of (table_at (record_media routePath m declared t) p) k = None
     \<longleftrightarrow> \<not> (p = routePath \<and> k = m) \<and> map_of (table_at t p) k = None"
  by (auto simp: record_media_def table_at_def Let_def update_conv' split: option.splits)

lemma same_entries_record_route:
  "same_entries t \<Longrightarrow> same_entries (record_route mountpath rt t)"
  unfolding same_entries_def by (simp add: record_route_def Let_def record_media_lookup)

lemma same_entries_fold:
  "same_entries t \<Longrightarrow> same_entries (fold (record_route mountpath) routes t)"
  by (induction routes arbitrary: t) (simp_all add: same_entries_record_route)

lemma fallback_is_dead:
  fixes mountpath routes
  defines "t \<equiv> fold (record_route mountpath) routes empty_tables"
  shows "accept_media_types (table_at (routesProduces t) routePath)
           (table_at (routesConsumes t) routePath) m
         = media_types_of (table_at (routesProduces t) routePath) m"
proof -
  have "same_entries empty_tables"
    by (simp add: same_entries_def empty_tables_def table_at_def)
  then have "same_entries t" unfolding t_def by (rule same_entries_fold)
  then have "map_of (table_at (routesProduces t) routePath) m = None
      \<Longrightarrow> map_of (table_at (routesConsumes t) routePath) m = None"
    unfolding same_entries_def by blast
  then show ?thesis
    by (cases "map_of (table_at (routesProduces t) routePath) m")
       (simp_all add: accept_media_types_def media_types_of_def)
qed

text \<open>
  When \<open>expressroutes\<close> returns, the layers after the documentation route and the
  routes' registrations are the groups, one per recorded path, built from the tables
  that recording the routes gives.
\<close>

lemma expressroutes_old_groups:
  assumes "expressroutes_old r opts = Inr (r', opts')"
    and "routes = (case opt_routes opts of Some rs \<Rightarrow> rs | None \<Rightarrow> [])"
    and "mountpath = utils_unsuffix (utils_prefix (or_default (api_basePath (opt_api opts)) ''/'') ''/'') ''/''"
    and "t = fold (record_route mountpath) routes empty_tables"
  shows "drop (length (router_stack r) + 1 + length routes) (router_stack r')
           = map (\<lambda>p. UseLayer p (use_group_old t p)) (map fst (routesMethod t))"
proof -
  let ?docspath = "utils_prefix (or_default (opt_docspath opts) ''/api-docs'') ''/''"
  let ?basePath = "utils_prefix (or_default (api_basePath (opt_api opts)) ''/'') ''/''"
  let ?defs = "api_securityDefinitions (opt_api opts)"
  from assms(1) obtain r1 where r1:
    "router_verb r ''get'' (mountpath @ ?docspath) [] (Fn docs_handler) = Inr r1"
    by (cases "router_verb r ''get'' (mountpath @ ?docspath) [] (Fn docs_handler)")
      (simp_all add: expressroutes_old_def Let_def assms(3))
  then have s1: "router_stack r1
      = router_stack r @ [VerbLayer ''get'' (mountpath @ ?docspath) [] (Fn docs_handler)]"
    by (auto simp: router_verb_def split: if_splits)
  from assms(1) r1 obtain st where st:
    "register_routes mountpath ?defs routes (r1, [], empty_tables) = Inr st"
    by (cases "register_routes mountpath ?defs routes (r1, [], empty_tables)")
      (simp_all add: expressroutes_old_def Let_def assms(2,3))
  obtain r2 routes' t' where s: "st = (r2, routes', t')" by (cases st)
  from register_routes_tables [OF st [unfolded s]] assms(4)
  obtain vs where t': "t' = t" and vs: "router_stack r2 = router_stack r1 @ vs"
    "length vs = length routes"
    by blast
  from assms(1) r1 st s t'
  have "r' = fold (\<lambda>routePath rr. router_use rr routePath (use_group_old t routePath))
               (map fst (routesMethod t)) r2"
    by (simp add: expressroutes_old_def Let_def assms(2,3))
  then have "router_stack r' = (router_stack r1 @ vs)
      @ map (\<lambda>p. UseLayer p (use_group_old t p)) (map fst (routesMethod t))"
    by (simp only: fold_router_use vs)
  with s1 vs(2) show ?thesis by simp
qed

lemma expressroutes_groups:
  assumes "expressroutes errorName r opts = Inr (r', opts', errorName')"
    and "routes = (case opt_routes opts of Some rs \<Rightarrow> rs | None \<Rightarrow> [])"
    and "basePath = utils_prefix (or_default (api_basePath (opt_api opts)) ''/'') ''/''"
    and "mountpath = utils_unsuffix basePath ''/''"
    and "api = (opt_api opts)\<lparr>api_basePath := Some basePath\<rparr>"
    and "t = fold (record_route mountpath) routes empty_tables"
  shows "drop (length (router_stack r) + 1 + length routes) (router_stack r')
           = map (\<lambda>p. UseLayer p (use_group api t p)) (map fst (routesMethod t))"
proof -
  let ?docspath = "utils_prefix (or_default (opt_docspath opts) ''/api-docs'') ''/''"
  let ?defs = "api_securityDefinitions (opt_api opts)"
  from assms(1) obtain r1 where r1:
    "router_verb r ''get'' (mountpath @ ?docspath) [] (Fn docs_handler) = Inr r1"
    by (cases "router_verb r ''get'' (mountpath @ ?docspath) [] (Fn docs_handler)")
      (simp_all add: expressroutes_def Let_def assms(3,4))
  then have s1: "router_stack r1
      = router_stack r @ [VerbLayer ''get'' (mountpath @ ?docspath) [] (Fn docs_handler)]"
    by (auto simp: router_verb_def split: if_splits)
  from assms(1) r1 obtain st where st:
    "register_routes mountpath ?defs routes (r1, [], empty_tables) = Inr st"
    by (cases "register_routes mountpath ?defs routes (r1, [], empty_tables)")
      (simp_all add: expressroutes_def Let_def assms(2,3,4))
  obtain r2 routes' t' where s: "st = (r2, routes', t')" by (cases st)
  from register_routes_tables [OF st [unfolded s]] assms(6)
  obtain vs where t': "t' = t" and vs: "router_stack r2 = router_stack r1 @ vs"
    "length vs = length routes"
    by blast
  from assms(1) r1 st s t'
  have "r' = fold (\<lambda>routePath rr. router_use rr routePath (use_group api t routePath))
               (map fst (routesMethod t)) r2"
    by (simp add: expressroutes_def Let_def assms(2,3,4,5))
  then have "router_stack r' = (router_stack r1 @ vs)
      @ map (\<lambda>p. UseLayer p (use_group api t p)) (map fst (routesMethod t))"
    by (simp only: fold_router_use vs)
  with s1 vs(2) show ?thesis by simp
qed

lemma register_routes_methods:
  assumes "register_routes mountpath defs routes (r, done, t) = Inr (r', routes', t')"
  shows "table_at (routesMethod t') p
     = table_at (routesMethod t) p
       @ map (\<lambda>rt. toLowerCase (route_method rt))
           (filter (\<lambda>rt. buildRoutePath mountpath (route_path rt) = p) routes)"
  using register_routes_tables [OF assms] by (simp add: fold_record_route_methods)

subsection \<open>The newer pipeline's group\<close>

text \<open>
  The newer pipeline's group as a whole: when the Content-Type middleware runs, the
  not-allowed middleware before it has already incremented the pass counter, so no
  error of status 415 leaves the group.
\<close>

lemma not_allowed_leaves_counter:
  "buildNotAllowedMiddleware errorName methods req res = (req', res', Next None) \<Longrightarrow>
   \<not> counter_falsy (req_expressroutes req')"
  by (auto simp: buildNotAllowedMiddleware_def bump_counter_def counter_falsy_def
      split: if_splits option.splits)

lemma content_type_passes_counted:
  "\<not> counter_falsy (req_expressroutes req) \<Longrightarrow>
   validateContentTypeHeaderMiddleware errorName consumes req res = (req, res, Next None)"
  by (simp add: validateContentTypeHeaderMiddleware_def Let_def)

lemma accept_signal:
  "validateAcceptHeaderMiddleware errorName produces consumes req res = (req', res', Next (Some e))
   \<Longrightarrow> e_status e = Some 406"
  by (auto simp: validateAcceptHeaderMiddleware_def Let_def error_def split: if_splits)

lemma not_allowed_signal:
  "buildNotAllowedMiddleware errorName methods req res = (req', res', Next (Some e))
   \<Longrightarrow> e_status e = Some 405"
  by (auto simp: buildNotAllowedMiddleware_def error_def split: if_splits)

lemma append_signal:
  "appendSwaggerDefinitionsToReq routePath api req res = (req', res', Next (Some e)) \<Longrightarrow> False"
  by (auto simp: appendSwaggerDefinitionsToReq_def Let_def split: option.splits)

lemma run_chain_single: "run_chain [mw] req res = mw req res"
proof -
  obtain r s g where m: "mw req res = (r, s, g)" by (cases "mw req res") auto
  then show ?thesis by (cases g) (auto split: option.splits)
qed

lemma run_chain_next:
  "mw req res = (req', res', Next None) \<Longrightarrow> run_chain (mw # mws) req res = run_chain mws req' res'"
  by simp

lemma group_never_415:
  assumes "run_group errorName (use_group api t routePath) req res = (req', res', Next (Some e))"
  shows "e_status e \<noteq> Some 415"
proof -
  let ?na = "buildNotAllowedMiddleware errorName (table_at (routesMethod t) routePath)"
  let ?ct = "validateContentTypeHeaderMiddleware errorName (table_at (routesConsumes t) routePath)"
  let ?ac = "validateAcceptHeaderMiddleware errorName (table_at (routesProduces t) routePath)
               (table_at (routesConsumes t) routePath)"
  obtain r1 s1 g1 where a: "appendSwaggerDefinitionsToReq routePath api req res = (r1, s1, g1)"
    by (cases "appendSwaggerDefinitionsToReq routePath api req res") auto
  show ?thesis
  proof (cases "g1 = Next None")
    case False
    with a assms have "g1 = Next (Some e)"
      by (cases g1) (auto simp: use_group_def run_group_def split: option.splits)
    with a append_signal show ?thesis by blast
  next
    case True
    obtain r2 s2 g2 where n: "?na r1 s1 = (r2, s2, g2)" by (cases "?na r1 s1") auto
    show ?thesis
    proof (cases "g2 = Next None")
      case False
      with a True n assms have "g2 = Next (Some e)"
        by (cases g2) (auto simp: use_group_def run_group_def split: option.splits)
      with n not_allowed_signal [of errorName _ r1 s1 r2 s2 e] show ?thesis by simp
    next
      case g2: True
      from n g2 have "\<not> counter_falsy (req_expressroutes r2)"
        by (simp add: not_allowed_leaves_counter)
      then have c: "?ct r2 s2 = (r2, s2, Next None)" by (rule content_type_passes_counted)
      from a True have a': "appendSwaggerDefinitionsToReq routePath api req res = (r1, s1, Next None)"
        by simp
      from n g2 have n': "?na r1 s1 = (r2, s2, Next None)" by simp
      have "run_group errorName (use_group api t routePath) req res = ?ac r2 s2"
        unfolding use_group_def run_group_def list.map
        by (simp only: run_chain_single
            run_chain_next [where mw = "appendSwaggerDefinitionsToReq routePath api"
              and req = req and res = res, OF a']
            run_chain_next [where mw = ?na and req = r1 and res = s1, OF n']
            run_chain_next [where mw = ?ct and req = r2 and res = s2, OF c])
      with assms have "?ac r2 s2 = (req', res', Next (Some e))" by simp
      from accept_signal [OF this] show ?thesis by simp
    qed
  qed
qed

section \<open>Method not allowed\<close>




section \<open>Content-Type enforcement\<close>

text \<open>
  Claim C2 does not hold of the newer pipeline. The route \<open>POST /pets\<close> consumes
  \<open>application/json\<close> only, and a POST request arrives with
  \<open>Content-Type: text/plain\<close> (and \<open>Accept: */*\<close>), on its first pass. The group that
  the older \<open>expressroutes\<close> registers for \<open>/v1/pets\<close> answers 415, as the claim
  says. The group that the newer \<open>expressroutes\<close> registers lets the request through:
  its not-allowed middleware has set the pass counter to 1 when the Content-Type
  middleware reads it, so the error of status 415 is not made, nothing is answered, and
  the request goes on to the route's handler. (No request gets an error of status 415
  from a group of the newer pipeline: \<open>group_never_415\<close> above.)
\<close>

theorem newer_group_passes_unsupported_content_type:
  "(case expressroutes_old a_router posting_options of
      Inl e \<Rightarrow> False
    | Inr (r, opts) \<Rightarrow>
        map layer_path (filter is_use_layer (router_stack r)) = [''/v1/pets'']
        \<and> statusCode (res_of (run_group None (group_at (router_stack r) ''/v1/pets'')
                                plain_text_post a_response)) = Some 415
        \<and> signal_of (run_group None (group_at (router_stack r) ''/v1/pets'')
                       plain_text_post a_response) = NotCalled)
   \<and> (case expressroutes None a_router posting_options of
        Inl e \<Rightarrow> False
      | Inr (r, opts, errorName) \<Rightarrow>
          map layer_path (filter is_use_layer (router_stack r)) = [''/v1/pets'']
          \<and> run_group errorName (group_at (router_stack r) ''/v1/pets'') plain_text_post a_response
              = (plain_text_post\<lparr>req_expressroutes := Some 1\<rparr>, a_response, Next None))"
  by (simp add: expressroutes_old_def expressroutes_def posting_options_def an_api_def
      makeExpressRoute_def a_router_def a_route_def router_verb_def router_use_def Let_def
      buildRoutePath_def utils_prefix_def utils_unsuffix_def or_default_def suffix_to_prefix
      record_route_def record_media_def empty_tables_def media_types_of_def
      first_occurrences_def toLowerCase_def toLowerChar_def
      use_group_old_def use_group_def run_group_def table_at_def
      buildNotAllowedMiddleware_old_def buildNotAllowedMiddleware_def
      validateContentTypeHeaderMiddleware_old_def validateContentTypeHeaderMiddleware_def
      validateAcceptHeaderMiddleware_old_def validateAcceptHeaderMiddleware_def
      appendSwaggerDefinitionsToReq_def routeFilter_def js_split_def
      plain_text_post_def a_request_def a_response_def req_header_def mutating_method_def
      counter_falsy_def bump_counter_def header_values_def validated_def accept_media_types_def
      res_send_def res_status_def res_of_def signal_of_def js_get_def js_includes_sublist [symmetric])

section \<open>Matching of media types\<close>

text \<open>
  Claim C3, as the code has it. In the newer pipeline, the Content-Type and the Accept
  middleware let a request through as soon as one value of the header (the pieces between
  \<^verbatim>\<open>', '\<close>) contains one declared media type as a substring. In the older pipeline a
  header that is non-empty and not \<^verbatim>\<open>*/*\<close> is let through (by the Content-Type
  middleware, for the methods PATCH, POST and PUT) exactly when the whole header equals a
  declared media type.
\<close>

theorem media_type_matching:
  "(req_header req ''content-type'' = Some hc \<and> hc \<noteq> [] \<and> vc \<in> set (js_split '', '' hc)
        \<and> mc \<in> set (media_types_of consumes (toLowerCase (req_method req))) \<and> sublist mc vc \<longrightarrow>
      validateContentTypeHeaderMiddleware errorName consumes req res = (req, res, Next None))
   \<and> (req_header req ''accept'' = Some ha \<and> ha \<noteq> [] \<and> va \<in> set (js_split '', '' ha)
        \<and> ma \<in> set (accept_media_types produces consumes (toLowerCase (req_method req)))
        \<and> sublist ma va \<longrightarrow>
      validateAcceptHeaderMiddleware errorName produces consumes req res = (req, res, Next None))
   \<and> (req_header req ''content-type'' = Some hc \<and> hc \<noteq> [] \<and> hc \<noteq> ''*/*''
        \<and> mutating_method (toLowerCase (req_method req)) \<longrightarrow>
      (validateContentTypeHeaderMiddleware_old consumes req res = (req, res, Next None))
        = (hc \<in> set (media_types_of consumes (toLowerCase (req_method req)))))
   \<and> (req_header req ''accept'' = Some ha \<and> ha \<noteq> [] \<and> ha \<noteq> ''*/*'' \<longrightarrow>
      (validateAcceptHeaderMiddleware_old produces consumes req res = (req, res, Next None))
        = (ha \<in> set (accept_media_types produces consumes (toLowerCase (req_method req)))))"
  by (auto simp: validateContentTypeHeaderMiddleware_old_def validateContentTypeHeaderMiddleware_def
      validateAcceptHeaderMiddleware_old_def validateAcceptHeaderMiddleware_def
      Let_def validated_iff header_values_def split: option.splits)

theorem media_type_matching_witness:
  "req_header (a_request ''POST'' [(''content-type'', ''text/plain, application/json; charset=utf-8'')] None)
      ''content-type'' = Some ''text/plain, application/json; charset=utf-8''
   \<and> ''application/json; charset=utf-8'' \<in> set (js_split '', '' ''text/plain, application/json; charset=utf-8'')
   \<and> ''application/json'' \<in> set (media_types_of json_only ''post'')
   \<and> sublist ''application/json'' ''application/json; charset=utf-8''
   \<and> validateContentTypeHeaderMiddleware None json_only
        (a_request ''POST'' [(''content-type'', ''text/plain, application/json; charset=utf-8'')] None)
        a_response
      = (a_request ''POST'' [(''content-type'', ''text/plain, application/json; charset=utf-8'')] None,
         a_response, Next None)
   \<and> req_header (a_request ''POST'' [(''accept'', ''text/plain, application/json; charset=utf-8'')] None)
      ''accept'' = Some ''text/plain, application/json; charset=utf-8''
   \<and> ''application/json'' \<in> set (accept_media_types json_only [] ''post'')
   \<and> validateAcceptHeaderMiddleware None json_only []
        (a_request ''POST'' [(''accept'', ''text/plain, application/json; charset=utf-8'')] None)
        a_response
      = (a_request ''POST'' [(''accept'', ''text/plain, application/json; charset=utf-8'')] None,
         a_response, Next None)
   \<and> validateContentTypeHeaderMiddleware_old json_only
        (a_request ''POST'' [(''content-type'', ''application/json'')] None) a_response
      = (a_request ''POST'' [(''content-type'', ''application/json'')] None, a_response, Next None)
   \<and> validateAcceptHeaderMiddleware_old json_only []
        (a_request ''POST'' [(''accept'', ''application/json'')] None) a_response
      = (a_request ''POST'' [(''accept'', ''application/json'')] None, a_response, Next None)"
  using media_type_matching [where req =
      "a_request ''POST'' [(''content-type'', ''text/plain, application/json; charset=utf-8'')] None"
      and consumes = json_only and errorName = None and res = a_response
      and hc = "''text/plain, application/json; charset=utf-8''"
      and vc = "''application/json; charset=utf-8''" and mc = "''application/json''"]
    media_type_matching [where req =
      "a_request ''POST'' [(''accept'', ''text/plain, application/json; charset=utf-8'')] None"
      and consumes = "[]" and errorName = None and res = a_response and produces = json_only
      and ha = "''text/plain, application/json; charset=utf-8''"
      and va = "''application/json; charset=utf-8''" and ma = "''application/json''"]
    media_type_matching [where req = "a_request ''POST'' [(''content-type'', ''application/json'')] None"
      and consumes = json_only and res = a_response and hc = "''application/json''"]
    media_type_matching [where req = "a_request ''POST'' [(''accept'', ''application/json'')] None"
      and consumes = "[]" and res = a_response and produces = json_only
      and ha = "''application/json''"]
  by (simp add: a_request_def json_only_def toLowerCase_def toLowerChar_def mutating_method_def
      req_header_def media_types_of_def accept_media_types_def js_split_def
      js_includes_sublist [symmetric])

text \<open>
  The claim as written fails in the older pipeline: the header
  \<open>application/json; charset=utf-8\<close> contains the declared \<open>application/json\<close>, and the
  POST request is answered 415.
\<close>

theorem old_content_type_needs_equality:
  "req_header (a_request ''POST'' [(''content-type'', ''application/json; charset=utf-8'')] None)
      ''content-type'' = Some ''application/json; charset=utf-8''
   \<and> media_types_of json_only (toLowerCase ''POST'') = [''application/json'']
   \<and> sublist ''application/json'' ''application/json; charset=utf-8''
   \<and> statusCode (res_of (validateContentTypeHeaderMiddleware_old json_only
        (a_request ''POST'' [(''content-type'', ''application/json; charset=utf-8'')] None) a_response))
      = Some 415
   \<and> signal_of (validateContentTypeHeaderMiddleware_old json_only
        (a_request ''POST'' [(''content-type'', ''application/json; charset=utf-8'')] None) a_response)
      = NotCalled"
  by (simp add: validateContentTypeHeaderMiddleware_old_def a_request_def json_only_def
      toLowerCase_def toLowerChar_def mutating_method_def req_header_def media_types_of_def
      res_of_def signal_of_def res_send_def res_status_def js_includes_sublist [symmetric])

section \<open>Accept enforcement\<close>

text \<open>
  Claim C4 does not hold of the fall-back, in either pipeline. The route \<open>POST /pets\<close>
  consumes \<open>application/json\<close> and declares nothing that it produces, and a POST request
  arrives with \<open>Content-Type: application/json\<close> and \<open>Accept: application/json\<close>.
  By the claim the consumed media types stand in for the missing produced ones, the header
  matches, and the request passes. But \<open>expressroutes\<close> records a list of produced
  media types for every route, the empty list for this one, and the Accept middleware
  takes the consumed ones only where no list is recorded: the group registered for
  \<open>/v1/pets\<close> answers 406 in the older pipeline and forwards an error of status 406 in
  the newer one. (For the tables of any routes the list the Accept middleware uses is the
  recorded list of produced media types: \<open>fallback_is_dead\<close> above.)
\<close>

theorem accept_fallback_never_taken:
  "fold (record_route ''/v1'')
        (case opt_routes consuming_options of Some rs \<Rightarrow> rs | None \<Rightarrow> []) empty_tables
     = \<lparr>routesMethod = [(''/v1/pets'', [''post''])],
        routesConsumes = [(''/v1/pets'', [(''post'', [''application/json''])])],
        routesProduces = [(''/v1/pets'', [(''post'', [])])]\<rparr>
   \<and> (case expressroutes_old a_router consuming_options of
        Inl e \<Rightarrow> False
      | Inr (r, opts) \<Rightarrow>
          map layer_path (filter is_use_layer (router_stack r)) = [''/v1/pets'']
          \<and> statusCode (res_of (run_group None (group_at (router_stack r) ''/v1/pets'')
                                  json_post a_response)) = Some 406
          \<and> signal_of (run_group None (group_at (router_stack r) ''/v1/pets'')
                         json_post a_response) = NotCalled)
   \<and> (case expressroutes None a_router consuming_options of
        Inl e \<Rightarrow> False
      | Inr (r, opts, errorName) \<Rightarrow>
          map layer_path (filter is_use_layer (router_stack r)) = [''/v1/pets'']
          \<and> res_of (run_group errorName (group_at (router_stack r) ''/v1/pets'')
                       json_post a_response) = a_response
          \<and> (case signal_of (run_group errorName (group_at (router_stack r) ''/v1/pets'')
                                json_post a_response) of
                Next (Some e) \<Rightarrow> e_status e = Some 406
              | _ \<Rightarrow> False))"
  by (simp add: expressroutes_old_def expressroutes_def consuming_options_def an_api_def
      makeExpressRoute_def a_router_def a_route_def router_verb_def router_use_def Let_def
      buildRoutePath_def utils_prefix_def utils_unsuffix_def or_default_def suffix_to_prefix
      record_route_def record_media_def empty_tables_def media_types_of_def
      first_occurrences_def toLowerCase_def toLowerChar_def
      use_group_old_def use_group_def run_group_def table_at_def
      buildNotAllowedMiddleware_old_def buildNotAllowedMiddleware_def
      validateContentTypeHeaderMiddleware_old_def validateContentTypeHeaderMiddleware_def
      validateAcceptHeaderMiddleware_old_def validateAcceptHeaderMiddleware_def
      appendSwaggerDefinitionsToReq_def routeFilter_def js_split_def
      json_post_def a_request_def a_response_def req_header_def mutating_method_def
      counter_falsy_def bump_counter_def header_values_def validated_def accept_media_types_def
      res_send_def res_status_def res_of_def signal_of_def js_get_def error_def
      js_includes_sublist [symmetric])

section \<open>Validation errors\<close>

text \<open>
  Claim C5. When the accessor of a validator's parameter yields a value and the
  \<open>validate\<close> function reports an error for it, the middleware answers (without calling
  \<^verbatim>\<open>next\<close>) with one error entry, whose status is also the response status. The status is
  400 and the title the error's own name, or \<open>Bad Request\<close> when it has none; but for a
  parameter whose name is \<open>content-type\<close> in any letter case the status is 415 and the
  title \<open>Unsupported Media Type\<close>; and for a required parameter whose value is falsy the
  status is 400 and the title \<open>Missing Value for Required Header\<close> (this last case is
  tested last in the code, so it also applies to a required, missing \<open>content-type\<close>).
  The detail is the message of the first of the error's details, or \<open>Validation Error\<close>
  when there is none.
\<close>

theorem validator_error_payload:
  assumes "valueAccessor (v_parameter v) consumes = Some accessor"
    and "acc_get accessor req (p_name (v_parameter v)) = Inr val"
    and "v_validate v val = Inl e"
    and "st_title =
          (if p_required (v_parameter v) \<and> \<not> truthy val
           then (400, ''Missing Value for Required Header'')
           else if toLowerCase (p_name (v_parameter v)) = ''content-type''
           then (415, ''Unsupported Media Type'')
           else (400, case ve_name e of
                        Some n \<Rightarrow> if n = [] then ''Bad Request'' else n
                      | None \<Rightarrow> ''Bad Request''))"
    and "dtl =
          (case ve_details e of
             Some (d # ds) \<Rightarrow>
               (case d_message d of
                  Some m \<Rightarrow> if m = [] then ''Validation Error'' else m
                | None \<Rightarrow> ''Validation Error'')
           | _ \<Rightarrow> ''Validation Error'')"
  shows "makeValidator v consumes req res
           = (req,
              res\<lparr>statusCode := Some (fst st_title),
                   res_body := Some (ValidationErrors
                     [\<lparr>detail = dtl, status = fst st_title, title = snd st_title\<rparr>])\<rparr>,
              NotCalled)"
  using assms
  by (simp add: makeValidator_def validation_errinfo_def error_detail_def error_title_def
      res_send_def res_status_def Let_def content_type_name
      split: option.splits list.splits)

theorem validator_error_payload_witness:
  "valueAccessor (v_parameter (failing_validator ''Content-Type'' ''header'' False)) None \<noteq> None
   \<and> acc_get (the (valueAccessor (v_parameter (failing_validator ''Content-Type'' ''header'' False)) None))
        (a_request ''POST'' [(''content-type'', ''text/plain'')] None) ''Content-Type''
      = Inr (JStr ''text/plain'')
   \<and> makeValidator (failing_validator ''Content-Type'' ''header'' False) None
        (a_request ''POST'' [(''content-type'', ''text/plain'')] None) a_response
      = (a_request ''POST'' [(''content-type'', ''text/plain'')] None,
         \<lparr>statusCode = Some 415, res_headers = [],
          res_body = Some (ValidationErrors
            [\<lparr>detail = ''must be a string'', status = 415, title = ''Unsupported Media Type''\<rparr>])\<rparr>,
         NotCalled)
   \<and> makeValidator (failing_validator ''id'' ''query'' True) None
        (a_request ''GET'' [] None) a_response
      = (a_request ''GET'' [] None,
         \<lparr>statusCode = Some 400, res_headers = [],
          res_body = Some (ValidationErrors
            [\<lparr>detail = ''must be a string'', status = 400,
              title = ''Missing Value for Required Header''\<rparr>])\<rparr>,
         NotCalled)
   \<and> makeValidator (failing_validator ''id'' ''query'' False) None
        (a_request ''GET'' [] None) a_response
      = (a_request ''GET'' [] None,
         \<lparr>statusCode = Some 400, res_headers = [],
          res_body = Some (ValidationErrors
            [\<lparr>detail = ''must be a string'', status = 400, title = ''ValidationError''\<rparr>])\<rparr>,
         NotCalled)"
  using validator_error_payload [where v = "failing_validator ''Content-Type'' ''header'' False"
      and consumes = None and req = "a_request ''POST'' [(''content-type'', ''text/plain'')] None"
      and res = a_response and val = "JStr ''text/plain''"
      and accessor = "the (valueAccessor (v_parameter (failing_validator ''Content-Type'' ''header'' False)) None)"
      and e = "\<lparr>ve_name = Some ''ValidationError'',
                 ve_details = Some [\<lparr>d_message = Some ''must be a string''\<rparr>]\<rparr>",
      OF _ _ _ refl refl]
    validator_error_payload [where v = "failing_validator ''id'' ''query'' True"
      and consumes = None and req = "a_request ''GET'' [] None"
      and res = a_response and val = JUndefined
      and accessor = "the (valueAccessor (v_parameter (failing_validator ''id'' ''query'' True)) None)"
      and e = "\<lparr>ve_name = Some ''ValidationError'',
                 ve_details = Some [\<lparr>d_message = Some ''must be a string''\<rparr>]\<rparr>",
      OF _ _ _ refl refl]
    validator_error_payload [where v = "failing_validator ''id'' ''query'' False"
      and consumes = None and req = "a_request ''GET'' [] None"
      and res = a_response and val = JUndefined
      and accessor = "the (valueAccessor (v_parameter (failing_validator ''id'' ''query'' False)) None)"
      and e = "\<lparr>ve_name = Some ''ValidationError'',
                 ve_details = Some [\<lparr>d_message = Some ''must be a string''\<rparr>]\<rparr>",
      OF _ _ _ refl refl]
  by (auto simp: failing_validator_def valueAccessor_def defaultAccessor_def a_request_def
      a_response_def req_header_def toLowerCase_def toLowerChar_def js_get_def)

section \<open>Authorization is a disjunction\<close>

text \<open>
  Each scheme's callback is called with its security definition and with the request
  carrying that scheme's scopes. If some scheme of the requirement has a callback that
  reports no error, the middleware calls \<^verbatim>\<open>next()\<close> and leaves the response alone.
  If every scheme lacks a callback or has one that reports an error, the response status
  becomes 401 and \<^verbatim>\<open>next\<close> receives the first failure collected: that of the first
  scheme, which is the \<open>Unauthorized.\<close> error when it has no callback and its callback's
  error otherwise. When the requirement names no scheme there is no failure to forward
  and \<^verbatim>\<open>next\<close> receives nothing.
\<close>

lemma authorizeFor_outcome:
  "((type, sch) \<in> set security \<and> s_authorize sch = Some authorize
      \<and> authorize (case defs of None \<Rightarrow> JUndefined | Some d \<Rightarrow> js_get d type)
           (req\<lparr>req_requiredScopes := s_scopes sch\<rparr>) res = None \<longrightarrow>
      signal_of (authorizeFor security defs req res) = Next None
      \<and> res_of (authorizeFor security defs req res) = res)
   \<and> ((\<forall>entry\<in>set security. \<forall>type sch. entry = (type, sch) \<longrightarrow>
          (case s_authorize sch of
             None \<Rightarrow> True
           | Some authorize \<Rightarrow>
               authorize (case defs of None \<Rightarrow> JUndefined | Some d \<Rightarrow> js_get d type)
                 (req\<lparr>req_requiredScopes := s_scopes sch\<rparr>) res \<noteq> None)) \<longrightarrow>
        statusCode (res_of (authorizeFor security defs req res)) = Some 401
        \<and> signal_of (authorizeFor security defs req res)
            = Next (case security of
                      [] \<Rightarrow> None
                    | (type, sch) # rest \<Rightarrow>
                        (case s_authorize sch of
                           None \<Rightarrow> Some unauthorized
                         | Some authorize \<Rightarrow>
                             authorize (case defs of None \<Rightarrow> JUndefined | Some d \<Rightarrow> js_get d type)
                               (req\<lparr>req_requiredScopes := s_scopes sch\<rparr>) res)))"
proof (intro conjI impI)
  assume a: "(type, sch) \<in> set security \<and> s_authorize sch = Some authorize
      \<and> authorize (case defs of None \<Rightarrow> JUndefined | Some d \<Rightarrow> js_get d type)
           (req\<lparr>req_requiredScopes := s_scopes sch\<rparr>) res = None"
  then have s: "snd (async_some (passed defs res) security (req, []))"
    using async_some_passed_one_succeeds [where type = type and sch = sch and security = security
        and authorize = authorize and defs = defs and req = req and res = res
        and x = "req_requiredScopes req" and errors = "[]"]
    by simp
  then obtain req' errors where r:
    "async_some (passed defs res) security (req, []) = ((req', errors), True)"
    by (cases "async_some (passed defs res) security (req, [])") auto
  then show "signal_of (authorizeFor security defs req res) = Next None"
    by (simp add: authorizeFor_def signal_of_def)
  from r show "res_of (authorizeFor security defs req res) = res"
    by (simp add: authorizeFor_def res_of_def)
next
  assume a: "\<forall>entry\<in>set security. \<forall>type sch. entry = (type, sch) \<longrightarrow>
          (case s_authorize sch of
             None \<Rightarrow> True
           | Some authorize \<Rightarrow>
               authorize (case defs of None \<Rightarrow> JUndefined | Some d \<Rightarrow> js_get d type)
                 (req\<lparr>req_requiredScopes := s_scopes sch\<rparr>) res \<noteq> None)"
  from async_some_passed_all_fail [OF a, of "req_requiredScopes req" "[]"]
  obtain x' where r: "async_some (passed defs res) security (req, [])
          = ((req\<lparr>req_requiredScopes := x'\<rparr>,
              map (\<lambda>(type, sch).
                  case s_authorize sch of
                    None \<Rightarrow> unauthorized
                  | Some authorize \<Rightarrow>
                      the (authorize (case defs of None \<Rightarrow> JUndefined | Some d \<Rightarrow> js_get d type)
                             (req\<lparr>req_requiredScopes := s_scopes sch\<rparr>) res)) security),
             False)"
    by (auto simp only: req_scopes_self append_Nil)
  then show "statusCode (res_of (authorizeFor security defs req res)) = Some 401"
    by (simp add: authorizeFor_def res_of_def)
  from r a show "signal_of (authorizeFor security defs req res)
            = Next (case security of
                      [] \<Rightarrow> None
                    | (type, sch) # rest \<Rightarrow>
                        (case s_authorize sch of
                           None \<Rightarrow> Some unauthorized
                         | Some authorize \<Rightarrow>
                             authorize (case defs of None \<Rightarrow> JUndefined | Some d \<Rightarrow> js_get d type)
                               (req\<lparr>req_requiredScopes := s_scopes sch\<rparr>) res))"
    by (cases security) (auto simp: authorizeFor_def signal_of_def split: option.splits)
qed

text \<open>
  Of two schemes, one without a callback and one whose callback reports success, the
  second authorizes the request; of two schemes that both fail, the first one's error is
  forwarded.
\<close>

lemma authorizeFor_outcome_examples:
  "(''oauth'', granting_scheme) \<in> set [(''key'', scheme_without_callback), (''oauth'', granting_scheme)]
   \<and> signal_of (authorizeFor [(''key'', scheme_without_callback), (''oauth'', granting_scheme)] None
        (a_request ''GET'' [] None) a_response) = Next None
   \<and> res_of (authorizeFor [(''key'', scheme_without_callback), (''oauth'', granting_scheme)] None
        (a_request ''GET'' [] None) a_response) = a_response
   \<and> statusCode (res_of (authorizeFor [(''basic'', denying_scheme), (''key'', scheme_without_callback)]
        None (a_request ''GET'' [] None) a_response)) = Some 401
   \<and> signal_of (authorizeFor [(''basic'', denying_scheme), (''key'', scheme_without_callback)]
        None (a_request ''GET'' [] None) a_response) = Next (Some denied)"
  using authorizeFor_outcome [where security = "[(''key'', scheme_without_callback), (''oauth'', granting_scheme)]"
      and type = "''oauth''" and sch = granting_scheme and authorize = "\<lambda>ctx req res. None"
      and defs = None and req = "a_request ''GET'' [] None" and res = a_response]
    authorizeFor_outcome [where security = "[(''basic'', denying_scheme), (''key'', scheme_without_callback)]"
      and defs = None and req = "a_request ''GET'' [] None" and res = a_response]
  by (simp add: granting_scheme_def denying_scheme_def scheme_without_callback_def)

text \<open>
  Claim C6 does not hold of a requirement that names no scheme. A route whose
  \<open>security\<close> is the empty object gets the authorization middleware, since the empty
  object is truthy. No scheme of it reports success, so authorization fails and the
  response status becomes 401; but no failure was collected, \<^verbatim>\<open>errors.shift()\<close> is
  \<open>undefined\<close>, and \<^verbatim>\<open>next(undefined)\<close> forwards no error: the request goes on to the
  route's handler, which answers it, as if it had been authorized.
\<close>

theorem authorize_empty_requirement_proceeds:
  "makeExpressRoute a_router ''/v1''
       ((a_route ''get'' ''/pets'' (Fn docs_handler) None)\<lparr>route_security := Some []\<rparr>) defs
     = Inr (a_router\<lparr>router_stack :=
              [VerbLayer ''get'' ''/v1/pets'' [authorizeFor [] defs] (Fn docs_handler)]\<rparr>,
            (a_route ''get'' ''/pets'' (Fn docs_handler) None)\<lparr>route_security := Some []\<rparr>)
   \<and> authorizeFor [] defs req res = (req, res\<lparr>statusCode := Some 401\<rparr>, Next None)
   \<and> run_chain [authorizeFor [] defs, docs_handler] (a_request ''GET'' [] None) a_response
        = (a_request ''GET'' [] None,
           a_response\<lparr>statusCode := Some 401, res_body := Some ApiDocument\<rparr>,
           NotCalled)"
  by (simp add: makeExpressRoute_def a_router_def a_route_def router_verb_def Let_def
      buildRoutePath_def utils_prefix_def authorizeFor_def docs_handler_def res_send_def)

section \<open>What \<open>expressroutes\<close> registers\<close>

text \<open>
  Claim C7. Let the router offer \<open>get\<close> and the method of every route, and let every
  route have a handler: a function, or an array whose last entry is the handler (as the
  routes derived from a document do). Then \<open>expressroutes\<close>, in the older and in the
  newer pipeline, returns, and what it has appended to the router's stack is exactly this,
  in this order. First the documentation route. Then one registration per route, in the
  routes' order (\<open>N\<close> registrations for \<open>N\<close> routes): each under the route's method and
  resolved path, with the route's chain, which is the authorization middleware if the route
  has a security requirement, the pre-handlers of a handler array, and one validator per
  parameter, and with the route's handler. Then one middleware group per distinct resolved
  path, in the order of the paths' first routes, and no other (\<open>M\<close> groups for \<open>M\<close>
  distinct resolved paths): each is made of the not-allowed middleware for the methods of
  the routes at that path, the Content-Type middleware for the media types they consume
  and the Accept middleware for the media types they produce and consume, preceded in the
  newer pipeline by the middleware that attaches the document's definition for the path.
  The tables \<open>t\<close> these are built from are those that recording the routes, one after
  the other, gives.
\<close>

theorem expressroutes_registrations:
  assumes "''get'' \<in> set (router_verbs r)"
    and "\<forall>rt\<in>set routes. route_method rt \<in> set (router_verbs r)
           \<and> route_handler rt \<noteq> HandlerUndefined \<and> route_handler rt \<noteq> HandlerArray []"
    and "opt_routes opts = Some routes"
    and "basePath = utils_prefix (or_default (api_basePath (opt_api opts)) ''/'') ''/''"
    and "mountpath = utils_unsuffix basePath ''/''"
    and "docspath = utils_prefix (or_default (opt_docspath opts) ''/api-docs'') ''/''"
    and "api = (opt_api opts)\<lparr>api_basePath := Some basePath\<rparr>"
    and "t = fold (record_route mountpath) routes empty_tables"
    and "paths = map fst (routesMethod t)"
    and "vs = map (\<lambda>rt. VerbLayer (route_method rt) (buildRoutePath mountpath (route_path rt))
                    ((case route_security rt of
                        Some security \<Rightarrow> [authorizeFor security (api_securityDefinitions api)]
                      | None \<Rightarrow> [])
                     @ (case route_handler rt of HandlerArray hs \<Rightarrow> butlast hs | _ \<Rightarrow> [])
                     @ map (\<lambda>v. makeValidator v (route_consumes rt)) (route_validators rt))
                    (case route_handler rt of
                       HandlerArray hs \<Rightarrow> Fn (last hs)
                     | _ \<Rightarrow> route_handler rt))
                routes"
    and "opts' = opts\<lparr>opt_docspath := Some docspath, opt_api := api,
                       opt_routes := Some (map (\<lambda>rt. rt\<lparr>route_handler :=
                                                  (case route_handler rt of
                                                     HandlerArray hs \<Rightarrow> Fn (last hs)
                                                   | _ \<Rightarrow> route_handler rt)\<rparr>) routes)\<rparr>"
  shows "expressroutes_old r opts
           = Inr (r\<lparr>router_stack := router_stack r
                     @ [VerbLayer ''get'' (mountpath @ docspath) [] (Fn docs_handler)]
                     @ vs
                     @ map (\<lambda>p. UseLayer p
                              [\<lambda>errorName. buildNotAllowedMiddleware_old (table_at (routesMethod t) p),
                               \<lambda>errorName. validateContentTypeHeaderMiddleware_old
                                  (table_at (routesConsumes t) p),
                               \<lambda>errorName. validateAcceptHeaderMiddleware_old
                                  (table_at (routesProduces t) p) (table_at (routesConsumes t) p)])
                         paths\<rparr>,
                  opts')
     \<and> expressroutes errorName r opts
           = Inr (r\<lparr>router_stack := router_stack r
                     @ [VerbLayer ''get'' (mountpath @ docspath) [] (Fn docs_handler)]
                     @ vs
                     @ map (\<lambda>p. UseLayer p
                              [\<lambda>errorName. appendSwaggerDefinitionsToReq p api,
                               \<lambda>errorName. buildNotAllowedMiddleware errorName
                                  (table_at (routesMethod t) p),
                               \<lambda>errorName. validateContentTypeHeaderMiddleware errorName
                                  (table_at (routesConsumes t) p),
                               \<lambda>errorName. validateAcceptHeaderMiddleware errorName
                                  (table_at (routesProduces t) p) (table_at (routesConsumes t) p)])
                         paths\<rparr>,
                  opts',
                  (case opt_errorname opts of
                     Some n \<Rightarrow> if n \<noteq> [] then Some n else errorName
                   | None \<Rightarrow> errorName))
     \<and> length vs = length routes
     \<and> distinct paths
     \<and> set paths = (\<lambda>rt. buildRoutePath mountpath (route_path rt)) ` set routes
     \<and> length paths = card ((\<lambda>rt. buildRoutePath mountpath (route_path rt)) ` set routes)
     \<and> (\<forall>p. table_at (routesMethod t) p
               = map (\<lambda>rt. toLowerCase (route_method rt))
                   (filter (\<lambda>rt. buildRoutePath mountpath (route_path rt) = p) routes))"
proof -
  let ?docs = "VerbLayer ''get'' (mountpath @ docspath) [] (Fn docs_handler)"
  let ?r1 = "r\<lparr>router_stack := router_stack r @ [?docs]\<rparr>"
  let ?defs = "api_securityDefinitions (opt_api opts)"
  have docs: "router_verb r ''get'' (mountpath @ docspath) [] (Fn docs_handler) = Inr ?r1"
    using assms(1) by (simp add: router_verb_def)
  from assms(2) have "\<forall>rt\<in>set routes. route_method rt \<in> set (router_verbs ?r1)
      \<and> route_handler rt \<noteq> HandlerUndefined \<and> route_handler rt \<noteq> HandlerArray []"
    by simp
  from register_routes_registers [OF this, of mountpath ?defs "[]" empty_tables]
  have reg: "register_routes mountpath ?defs routes (?r1, [], empty_tables)
      = Inr (?r1\<lparr>router_stack := router_stack ?r1 @ map (route_layer mountpath ?defs) routes\<rparr>,
             map (\<lambda>rt. rt\<lparr>route_handler := final_handler (route_handler rt)\<rparr>) routes, t)"
    by (simp add: assms(8))
  have fh: "final_handler (route_handler rt)
              = (case route_handler rt of HandlerArray hs \<Rightarrow> Fn (last hs) | _ \<Rightarrow> route_handler rt)"
    if "rt \<in> set routes" for rt
    using assms(2) that by (auto simp: final_handler_def split: handler.splits)
  have sd: "api_securityDefinitions api = ?defs" by (simp add: assms(7))
  have layers: "map (route_layer mountpath ?defs) routes = vs"
    unfolding assms(10) sd by (rule map_cong) (simp_all add: route_layer_def fh)
  have left: "map (\<lambda>rt. rt\<lparr>route_handler := final_handler (route_handler rt)\<rparr>) routes
      = map (\<lambda>rt. rt\<lparr>route_handler := (case route_handler rt of
                                            HandlerArray hs \<Rightarrow> Fn (last hs)
                                          | _ \<Rightarrow> route_handler rt)\<rparr>) routes"
    by (rule map_cong) (simp_all add: fh)
  from reg layers left sd
  have reg': "register_routes mountpath (api_securityDefinitions api) routes (?r1, [], empty_tables)
      = Inr (?r1\<lparr>router_stack := router_stack ?r1 @ vs\<rparr>,
             map (\<lambda>rt. rt\<lparr>route_handler := (case route_handler rt of
                                                   HandlerArray hs \<Rightarrow> Fn (last hs)
                                                 | _ \<Rightarrow> route_handler rt)\<rparr>) routes, t)"
    by simp
  have old: "expressroutes_old r opts
           = Inr (r\<lparr>router_stack := router_stack r @ [?docs] @ vs
                     @ map (\<lambda>p. UseLayer p
                              [\<lambda>errorName. buildNotAllowedMiddleware_old (table_at (routesMethod t) p),
                               \<lambda>errorName. validateContentTypeHeaderMiddleware_old
                                  (table_at (routesConsumes t) p),
                               \<lambda>errorName. validateAcceptHeaderMiddleware_old
                                  (table_at (routesProduces t) p) (table_at (routesConsumes t) p)])
                         paths\<rparr>,
                  opts')"
    using docs reg' assms(3)
    by (simp add: expressroutes_old_def Let_def assms(4,5,6,7) [symmetric] assms(9,11)
        fold_router_use_eq use_group_old_def)
  have new: "expressroutes errorName r opts
           = Inr (r\<lparr>router_stack := router_stack r @ [?docs] @ vs
                     @ map (\<lambda>p. UseLayer p
                              [\<lambda>errorName. appendSwaggerDefinitionsToReq p api,
                               \<lambda>errorName. buildNotAllowedMiddleware errorName
                                  (table_at (routesMethod t) p),
                               \<lambda>errorName. validateContentTypeHeaderMiddleware errorName
                                  (table_at (routesConsumes t) p),
                               \<lambda>errorName. validateAcceptHeaderMiddleware errorName
                                  (table_at (routesProduces t) p) (table_at (routesConsumes t) p)])
                         paths\<rparr>,
                  opts',
                  (case opt_errorname opts of
                     Some n \<Rightarrow> if n \<noteq> [] then Some n else errorName
                   | None \<Rightarrow> errorName))"
    using docs reg' assms(3)
    by (simp add: expressroutes_def Let_def assms(4,5,6,7) [symmetric] assms(9,11)
        fold_router_use_eq use_group_def)
  have len: "length vs = length routes" by (simp add: assms(10))
  have "distinct (map fst (routesMethod empty_tables))" by (simp add: empty_tables_def)
  from fold_record_route_keys [OF this, of mountpath routes]
  have dk: "distinct paths"
    and sk: "set paths = (\<lambda>rt. buildRoutePath mountpath (route_path rt)) ` set routes"
    by (simp_all add: assms(8,9) empty_tables_def)
  from dk sk have card: "length paths = card ((\<lambda>rt. buildRoutePath mountpath (route_path rt)) ` set routes)"
    using distinct_card [of paths] by simp
  have ms: "\<forall>p. table_at (routesMethod t) p
               = map (\<lambda>rt. toLowerCase (route_method rt))
                   (filter (\<lambda>rt. buildRoutePath mountpath (route_path rt) = p) routes)"
  proof
    fix p
    have "table_at (routesMethod empty_tables) p = []"
      by (simp add: empty_tables_def table_at_def)
    with fold_record_route_methods [of mountpath routes empty_tables p]
    show "table_at (routesMethod t) p
               = map (\<lambda>rt. toLowerCase (route_method rt))
                   (filter (\<lambda>rt. buildRoutePath mountpath (route_path rt) = p) routes)"
      by (simp only: assms(8) append_Nil)
  qed
  from old new len dk sk card ms show ?thesis by (intro conjI)
qed

theorem expressroutes_registrations_witness:
  "''get'' \<in> set (router_verbs a_router)
   \<and> list_all (\<lambda>rt. route_method rt \<in> set (router_verbs a_router)
                   \<and> route_handler rt \<noteq> HandlerUndefined \<and> route_handler rt \<noteq> HandlerArray [])
        three_routes
   \<and> opt_routes some_options = Some three_routes
   \<and> length three_routes = 3
   \<and> card ((\<lambda>rt. buildRoutePath ''/v1'' (route_path rt)) ` set three_routes) = 2
   \<and> fold (record_route ''/v1'') three_routes empty_tables
        = \<lparr>routesMethod = [(''/v1/pets'', [''get'', ''post'']), (''/v1/pets/:id'', [''get''])],
           routesConsumes = [(''/v1/pets'', [(''get'', []), (''post'', [''application/json''])]),
                             (''/v1/pets/:id'', [(''get'', [])])],
           routesProduces = [(''/v1/pets'', [(''get'', []), (''post'', [''application/json''])]),
                             (''/v1/pets/:id'', [(''get'', [])])]\<rparr>
   \<and> expressroutes_old a_router some_options
        = Inr (a_router\<lparr>router_stack :=
                 [VerbLayer ''get'' ''/v1/api-docs'' [] (Fn docs_handler),
                  VerbLayer ''get'' ''/v1/pets'' [] (Fn docs_handler),
                  VerbLayer ''post'' ''/v1/pets'' [] (Fn docs_handler),
                  VerbLayer ''get'' ''/v1/pets/:id'' [docs_handler] (Fn docs_handler),
                  UseLayer ''/v1/pets''
                    [\<lambda>errorName. buildNotAllowedMiddleware_old [''get'', ''post''],
                     \<lambda>errorName. validateContentTypeHeaderMiddleware_old
                        [(''get'', []), (''post'', [''application/json''])],
                     \<lambda>errorName. validateAcceptHeaderMiddleware_old
                        [(''get'', []), (''post'', [''application/json''])]
                        [(''get'', []), (''post'', [''application/json''])]],
                  UseLayer ''/v1/pets/:id''
                    [\<lambda>errorName. buildNotAllowedMiddleware_old [''get''],
                     \<lambda>errorName. validateContentTypeHeaderMiddleware_old [(''get'', [])],
                     \<lambda>errorName. validateAcceptHeaderMiddleware_old
                        [(''get'', [])] [(''get'', [])]]]\<rparr>,
               some_options\<lparr>opt_docspath := Some ''/api-docs'',
                 opt_routes := Some
                   [a_route ''get'' ''/pets'' (Fn docs_handler) None,
                    a_route ''post'' ''/pets'' (Fn docs_handler) (Some [''application/json'']),
                    a_route ''get'' ''/pets/{id}'' (Fn docs_handler) None]\<rparr>)
   \<and> expressroutes None a_router some_options
        = Inr (a_router\<lparr>router_stack :=
                 [VerbLayer ''get'' ''/v1/api-docs'' [] (Fn docs_handler),
                  VerbLayer ''get'' ''/v1/pets'' [] (Fn docs_handler),
                  VerbLayer ''post'' ''/v1/pets'' [] (Fn docs_handler),
                  VerbLayer ''get'' ''/v1/pets/:id'' [docs_handler] (Fn docs_handler),
                  UseLayer ''/v1/pets''
                    [\<lambda>errorName. appendSwaggerDefinitionsToReq ''/v1/pets'' (opt_api some_options),
                     \<lambda>errorName. buildNotAllowedMiddleware errorName [''get'', ''post''],
                     \<lambda>errorName. validateContentTypeHeaderMiddleware errorName
                        [(''get'', []), (''post'', [''application/json''])],
                     \<lambda>errorName. validateAcceptHeaderMiddleware errorName
                        [(''get'', []), (''post'', [''application/json''])]
                        [(''get'', []), (''post'', [''application/json''])]],
                  UseLayer ''/v1/pets/:id''
                    [\<lambda>errorName. appendSwaggerDefinitionsToReq ''/v1/pets/:id'' (opt_api some_options),
                     \<lambda>errorName. buildNotAllowedMiddleware errorName [''get''],
                     \<lambda>errorName. validateContentTypeHeaderMiddleware errorName [(''get'', [])],
                     \<lambda>errorName. validateAcceptHeaderMiddleware errorName
                        [(''get'', [])] [(''get'', [])]]]\<rparr>,
               some_options\<lparr>opt_docspath := Some ''/api-docs'',
                 opt_routes := Some
                   [a_route ''get'' ''/pets'' (Fn docs_handler) None,
                    a_route ''post'' ''/pets'' (Fn docs_handler) (Some [''application/json'']),
                    a_route ''get'' ''/pets/{id}'' (Fn docs_handler) None]\<rparr>,
               None)"
proof -
  have h1: "''get'' \<in> set (router_verbs a_router)"
    by (simp add: a_router_def)
  have h2: "\<forall>rt\<in>set three_routes. route_method rt \<in> set (router_verbs a_router)
      \<and> route_handler rt \<noteq> HandlerUndefined \<and> route_handler rt \<noteq> HandlerArray []"
    by (simp add: three_routes_def a_route_def a_router_def)
  have h3: "opt_routes some_options = Some three_routes"
    by (simp add: some_options_def)
  have n: "length three_routes = 3" by (simp add: three_routes_def)
  have t: "fold (record_route ''/v1'') three_routes empty_tables
        = \<lparr>routesMethod = [(''/v1/pets'', [''get'', ''post'']), (''/v1/pets/:id'', [''get''])],
           routesConsumes = [(''/v1/pets'', [(''get'', []), (''post'', [''application/json''])]),
                             (''/v1/pets/:id'', [(''get'', [])])],
           routesProduces = [(''/v1/pets'', [(''get'', []), (''post'', [''application/json''])]),
                             (''/v1/pets/:id'', [(''get'', [])])]\<rparr>"
    by (simp add: three_routes_def a_route_def record_route_def record_media_def empty_tables_def
        media_types_of_def first_occurrences_def toLowerCase_def toLowerChar_def Let_def
        buildRoutePath_def utils_prefix_def)
  have bp: "utils_prefix (or_default (api_basePath (opt_api some_options)) ''/'') ''/'' = ''/v1''"
    by (simp add: some_options_def or_default_def utils_prefix_def)
  have mp: "utils_unsuffix ''/v1'' ''/'' = ''/v1''"
    by (simp add: utils_unsuffix_def suffix_to_prefix)
  have dp: "utils_prefix (or_default (opt_docspath some_options) ''/api-docs'') ''/'' = ''/api-docs''"
    by (simp add: some_options_def or_default_def utils_prefix_def)
  have ap: "(opt_api some_options)\<lparr>api_basePath := Some ''/v1''\<rparr> = opt_api some_options"
    by (simp add: some_options_def)
  have so: "some_options\<lparr>opt_docspath := Some ''/api-docs'', opt_api := opt_api some_options,
              opt_routes := Some rs\<rparr>
            = some_options\<lparr>opt_docspath := Some ''/api-docs'', opt_routes := Some rs\<rparr>" for rs
    by simp
  have en: "opt_errorname some_options = None" by (simp add: some_options_def)
  note main = expressroutes_registrations [where r = a_router and opts = some_options
      and routes = three_routes and errorName = None, OF h1 h2 h3 refl refl refl refl refl refl
      refl refl, unfolded bp mp dp ap t so en]
  have c: "card ((\<lambda>rt. buildRoutePath ''/v1'' (route_path rt)) ` set three_routes) = 2"
    using main by simp
  have old: "expressroutes_old a_router some_options
        = Inr (a_router\<lparr>router_stack :=
                 [VerbLayer ''get'' ''/v1/api-docs'' [] (Fn docs_handler),
                  VerbLayer ''get'' ''/v1/pets'' [] (Fn docs_handler),
                  VerbLayer ''post'' ''/v1/pets'' [] (Fn docs_handler),
                  VerbLayer ''get'' ''/v1/pets/:id'' [docs_handler] (Fn docs_handler),
                  UseLayer ''/v1/pets''
                    [\<lambda>errorName. buildNotAllowedMiddleware_old [''get'', ''post''],
                     \<lambda>errorName. validateContentTypeHeaderMiddleware_old
                        [(''get'', []), (''post'', [''application/json''])],
                     \<lambda>errorName. validateAcceptHeaderMiddleware_old
                        [(''get'', []), (''post'', [''application/json''])]
                        [(''get'', []), (''post'', [''application/json''])]],
                  UseLayer ''/v1/pets/:id''
                    [\<lambda>errorName. buildNotAllowedMiddleware_old [''get''],
                     \<lambda>errorName. validateContentTypeHeaderMiddleware_old [(''get'', [])],
                     \<lambda>errorName. validateAcceptHeaderMiddleware_old
                        [(''get'', [])] [(''get'', [])]]]\<rparr>,
               some_options\<lparr>opt_docspath := Some ''/api-docs'',
                 opt_routes := Some
                   [a_route ''get'' ''/pets'' (Fn docs_handler) None,
                    a_route ''post'' ''/pets'' (Fn docs_handler) (Some [''application/json'']),
                    a_route ''get'' ''/pets/{id}'' (Fn docs_handler) None]\<rparr>)"
    using main [THEN conjunct1]
    by (simp add: three_routes_def a_route_def a_router_def table_at_def buildRoutePath_def
        utils_prefix_def)
  have new: "expressroutes None a_router some_options
        = Inr (a_router\<lparr>router_stack :=
                 [VerbLayer ''get'' ''/v1/api-docs'' [] (Fn docs_handler),
                  VerbLayer ''get'' ''/v1/pets'' [] (Fn docs_handler),
                  VerbLayer ''post'' ''/v1/pets'' [] (Fn docs_handler),
                  VerbLayer ''get'' ''/v1/pets/:id'' [docs_handler] (Fn docs_handler),
                  UseLayer ''/v1/pets''
                    [\<lambda>errorName. appendSwaggerDefinitionsToReq ''/v1/pets'' (opt_api some_options),
                     \<lambda>errorName. buildNotAllowedMiddleware errorName [''get'', ''post''],
                     \<lambda>errorName. validateContentTypeHeaderMiddleware errorName
                        [(''get'', []), (''post'', [''application/json''])],
                     \<lambda>errorName. validateAcceptHeaderMiddleware errorName
                        [(''get'', []), (''post'', [''application/json''])]
                        [(''get'', []), (''post'', [''application/json''])]],
                  UseLayer ''/v1/pets/:id''
                    [\<lambda>errorName. appendSwaggerDefinitionsToReq ''/v1/pets/:id'' (opt_api some_options),
                     \<lambda>errorName. buildNotAllowedMiddleware errorName [''get''],
                     \<lambda>errorName. validateContentTypeHeaderMiddleware errorName [(''get'', [])],
                     \<lambda>errorName. validateAcceptHeaderMiddleware errorName
                        [(''get'', [])] [(''get'', [])]]]\<rparr>,
               some_options\<lparr>opt_docspath := Some ''/api-docs'',
                 opt_routes := Some
                   [a_route ''get'' ''/pets'' (Fn docs_handler) None,
                    a_route ''post'' ''/pets'' (Fn docs_handler) (Some [''application/json'']),
                    a_route ''get'' ''/pets/{id}'' (Fn docs_handler) None]\<rparr>,
               None)"
    using main [THEN conjunct2, THEN conjunct1]
    by (simp add: three_routes_def a_route_def a_router_def table_at_def buildRoutePath_def
        utils_prefix_def)
  from h2 have h2': "list_all (\<lambda>rt. route_method rt \<in> set (router_verbs a_router)
                   \<and> route_handler rt \<noteq> HandlerUndefined \<and> route_handler rt \<noteq> HandlerArray [])
        three_routes"
    by (simp only: list_all_iff)
  from h1 h2' h3 n c t old new show ?thesis by (intro conjI)
qed

section \<open>What registering a route changes in the route\<close>




section \<open>Scaffolding of handler files\<close>

text \<open>
  Claim C9 at two inputs, in a directory \<open>handlers\<close> that exists and is empty. For
  \<open>/pets\<close> and \<open>/pets/{id}\<close> the scaffolding writes the one file
  \<open>handlers/pets.js\<close>, rendered from the route that groups both operations. For the
  single path \<open>/pets/{id}/toys/{toyId}/parts\<close>, whose pathname
  \<open>pets/toys/parts\<close> has three segments, it makes \<^verbatim>\<open>mkdirSync('handlers/pets/toys')\<close>
  its first step; the parent \<open>handlers/pets\<close> does not exist, the call throws
  \<open>ENOENT\<close>, and no handler file is written. (That no run changes anything that
  exists already is \<open>createHandlers_keeps_existing\<close> and
  \<open>createModels_keeps_existing\<close> above.)
\<close>

theorem createHandlers_deep_pathname_throws:
  "createHandlers a_template pets_apis ''handlers'' handlers_dir
     = (handlers_dir(''handlers/pets.js'' \<mapsto> File ''listPets,deletePet''), [], None)
   \<and> createHandlers a_template deep_apis ''handlers'' handlers_dir
     = (handlers_dir, [], Some ''ENOENT'')"
  by (simp add: createHandlers_def group_routes_pets group_routes_deep keyed_routes_def object_keys_pets
      object_keys_deep write_handler_def js_split_def path_join_pets path_join_deep ancestors_pets
      ancestors_deep existsSync_def writeFileSync_def mkdirSync_def handlers_dir_def a_template_def
      Let_def)

section \<open>The recorded media types have no duplicates\<close>

text \<open>
  Claim C10. Let \<open>t\<close> be the tables that recording the routes of the options, one after
  the other, gives. Whenever \<open>expressroutes\<close> returns, in the older or the newer
  pipeline, the layers it has put on the router after the documentation route and the
  routes' registrations are the groups of the recorded paths, and their Content-Type and
  Accept middleware are built from the tables \<open>t\<close>. In these tables, for every
  resolved path and method, the list of consumed media types and the list of produced
  media types have no duplicate entries, and so has the list the Accept middleware reads.
  This holds whatever the routes declare: each update of a table ends by keeping first
  occurrences only.
\<close>

theorem recorded_media_types_distinct:
  assumes "routes = (case opt_routes opts of Some rs \<Rightarrow> rs | None \<Rightarrow> [])"
    and "basePath = utils_prefix (or_default (api_basePath (opt_api opts)) ''/'') ''/''"
    and "mountpath = utils_unsuffix basePath ''/''"
    and "api = (opt_api opts)\<lparr>api_basePath := Some basePath\<rparr>"
    and "t = fold (record_route mountpath) routes empty_tables"
  shows "(expressroutes_old r opts = Inr (r', opts') \<longrightarrow>
            drop (length (router_stack r) + 1 + length routes) (router_stack r')
              = map (\<lambda>p. UseLayer p
                       [\<lambda>errorName. buildNotAllowedMiddleware_old (table_at (routesMethod t) p),
                        \<lambda>errorName. validateContentTypeHeaderMiddleware_old
                           (table_at (routesConsumes t) p),
                        \<lambda>errorName. validateAcceptHeaderMiddleware_old
                           (table_at (routesProduces t) p) (table_at (routesConsumes t) p)])
                  (map fst (routesMethod t)))
     \<and> (expressroutes errorName r opts = Inr (r'', opts'', errorName') \<longrightarrow>
            drop (length (router_stack r) + 1 + length routes) (router_stack r'')
              = map (\<lambda>p. UseLayer p
                       [\<lambda>errorName. appendSwaggerDefinitionsToReq p api,
                        \<lambda>errorName. buildNotAllowedMiddleware errorName
                           (table_at (routesMethod t) p),
                        \<lambda>errorName. validateContentTypeHeaderMiddleware errorName
                           (table_at (routesConsumes t) p),
                        \<lambda>errorName. validateAcceptHeaderMiddleware errorName
                           (table_at (routesProduces t) p) (table_at (routesConsumes t) p)])
                  (map fst (routesMethod t)))
     \<and> distinct (media_types_of (table_at (routesConsumes t) routePath) m)
     \<and> distinct (media_types_of (table_at (routesProduces t) routePath) m)
     \<and> distinct (accept_media_types (table_at (routesProduces t) routePath)
                   (table_at (routesConsumes t) routePath) m)"
proof (intro conjI impI)
  assume "expressroutes_old r opts = Inr (r', opts')"
  from expressroutes_old_groups [OF this assms(1) assms(3) [unfolded assms(2)] assms(5)]
  show "drop (length (router_stack r) + 1 + length routes) (router_stack r')
              = map (\<lambda>p. UseLayer p
                       [\<lambda>errorName. buildNotAllowedMiddleware_old (table_at (routesMethod t) p),
                        \<lambda>errorName. validateContentTypeHeaderMiddleware_old
                           (table_at (routesConsumes t) p),
                        \<lambda>errorName. validateAcceptHeaderMiddleware_old
                           (table_at (routesProduces t) p) (table_at (routesConsumes t) p)])
                  (map fst (routesMethod t))"
    by (simp only: use_group_old_def)
next
  assume "expressroutes errorName r opts = Inr (r'', opts'', errorName')"
  from expressroutes_groups [OF this assms]
  show "drop (length (router_stack r) + 1 + length routes) (router_stack r'')
              = map (\<lambda>p. UseLayer p
                       [\<lambda>errorName. appendSwaggerDefinitionsToReq p api,
                        \<lambda>errorName. buildNotAllowedMiddleware errorName
                           (table_at (routesMethod t) p),
                        \<lambda>errorName. validateContentTypeHeaderMiddleware errorName
                           (table_at (routesConsumes t) p),
                        \<lambda>errorName. validateAcceptHeaderMiddleware errorName
                           (table_at (routesProduces t) p) (table_at (routesConsumes t) p)])
                  (map fst (routesMethod t))"
    by (simp only: use_group_def)
next
  from fold_record_route_media_distinct [of mountpath routes routePath m]
  show "distinct (media_types_of (table_at (routesConsumes t) routePath) m)"
    and "distinct (media_types_of (table_at (routesProduces t) routePath) m)"
    and "distinct (accept_media_types (table_at (routesProduces t) routePath)
                   (table_at (routesConsumes t) routePath) m)"
    by (simp_all only: assms(5))
qed

theorem recorded_media_types_distinct_witness:
  "opt_routes duplicating_options
     = Some [a_route ''post'' ''/pets'' (Fn docs_handler) (Some duplicated_media),
             a_route ''post'' ''/pets'' (Fn docs_handler) (Some [''text/xml'', ''text/plain''])]
   \<and> \<not> distinct duplicated_media
   \<and> fold (record_route ''/v1'')
        [a_route ''post'' ''/pets'' (Fn docs_handler) (Some duplicated_media),
         a_route ''post'' ''/pets'' (Fn docs_handler) (Some [''text/xml'', ''text/plain''])]
        empty_tables
       = duplicating_tables
   \<and> expressroutes_old a_router duplicating_options
     = Inr (a_router\<lparr>router_stack :=
              [VerbLayer ''get'' ''/v1/api-docs'' [] (Fn docs_handler),
               VerbLayer ''post'' ''/v1/pets'' [] (Fn docs_handler),
               VerbLayer ''post'' ''/v1/pets'' [] (Fn docs_handler),
               UseLayer ''/v1/pets''
                 [\<lambda>errorName. buildNotAllowedMiddleware_old [''post'', ''post''],
                  \<lambda>errorName. validateContentTypeHeaderMiddleware_old
                     [(''post'', [''application/json'', ''text/xml'', ''text/plain''])],
                  \<lambda>errorName. validateAcceptHeaderMiddleware_old
                     [(''post'', [''application/json'', ''text/xml'', ''text/plain''])]
                     [(''post'', [''application/json'', ''text/xml'', ''text/plain''])]]]\<rparr>,
            duplicating_options\<lparr>opt_docspath := Some ''/api-docs''\<rparr>)
   \<and> drop 3 [VerbLayer ''get'' ''/v1/api-docs'' [] (Fn docs_handler),
              VerbLayer ''post'' ''/v1/pets'' [] (Fn docs_handler),
              VerbLayer ''post'' ''/v1/pets'' [] (Fn docs_handler),
              UseLayer ''/v1/pets''
                 [\<lambda>errorName. buildNotAllowedMiddleware_old [''post'', ''post''],
                  \<lambda>errorName. validateContentTypeHeaderMiddleware_old
                     [(''post'', [''application/json'', ''text/xml'', ''text/plain''])],
                  \<lambda>errorName. validateAcceptHeaderMiddleware_old
                     [(''post'', [''application/json'', ''text/xml'', ''text/plain''])]
                     [(''post'', [''application/json'', ''text/xml'', ''text/plain''])]]]
       = map (\<lambda>p. UseLayer p
                [\<lambda>errorName. buildNotAllowedMiddleware_old
                    (table_at (routesMethod duplicating_tables) p),
                 \<lambda>errorName. validateContentTypeHeaderMiddleware_old
                    (table_at (routesConsumes duplicating_tables) p),
                 \<lambda>errorName. validateAcceptHeaderMiddleware_old
                    (table_at (routesProduces duplicating_tables) p)
                    (table_at (routesConsumes duplicating_tables) p)])
           (map fst (routesMethod duplicating_tables))
   \<and> expressroutes None a_router duplicating_options
     = Inr (a_router\<lparr>router_stack :=
              [VerbLayer ''get'' ''/v1/api-docs'' [] (Fn docs_handler),
               VerbLayer ''post'' ''/v1/pets'' [] (Fn docs_handler),
               VerbLayer ''post'' ''/v1/pets'' [] (Fn docs_handler),
               UseLayer ''/v1/pets''
                 [\<lambda>errorName. appendSwaggerDefinitionsToReq ''/v1/pets'' (opt_api duplicating_options),
                  \<lambda>errorName. buildNotAllowedMiddleware errorName [''post'', ''post''],
                  \<lambda>errorName. validateContentTypeHeaderMiddleware errorName
                     [(''post'', [''application/json'', ''text/xml'', ''text/plain''])],
                  \<lambda>errorName. validateAcceptHeaderMiddleware errorName
                     [(''post'', [''application/json'', ''text/xml'', ''text/plain''])]
                     [(''post'', [''application/json'', ''text/xml'', ''text/plain''])]]]\<rparr>,
            duplicating_options\<lparr>opt_docspath := Some ''/api-docs''\<rparr>, None)
   \<and> drop 3 [VerbLayer ''get'' ''/v1/api-docs'' [] (Fn docs_handler),
               VerbLayer ''post'' ''/v1/pets'' [] (Fn docs_handler),
               VerbLayer ''post'' ''/v1/pets'' [] (Fn docs_handler),
               UseLayer ''/v1/pets''
                 [\<lambda>errorName. appendSwaggerDefinitionsToReq ''/v1/pets'' (opt_api duplicating_options),
                  \<lambda>errorName. buildNotAllowedMiddleware errorName [''post'', ''post''],
                  \<lambda>errorName. validateContentTypeHeaderMiddleware errorName
                     [(''post'', [''application/json'', ''text/xml'', ''text/plain''])],
                  \<lambda>errorName. validateAcceptHeaderMiddleware errorName
                     [(''post'', [''application/json'', ''text/xml'', ''text/plain''])]
                     [(''post'', [''application/json'', ''text/xml'', ''text/plain''])]]]
       = map (\<lambda>p. UseLayer p
                [\<lambda>errorName. appendSwaggerDefinitionsToReq p (opt_api duplicating_options),
                 \<lambda>errorName. buildNotAllowedMiddleware errorName
                    (table_at (routesMethod duplicating_tables) p),
                 \<lambda>errorName. validateContentTypeHeaderMiddleware errorName
                    (table_at (routesConsumes duplicating_tables) p),
                 \<lambda>errorName. validateAcceptHeaderMiddleware errorName
                    (table_at (routesProduces duplicating_tables) p)
                    (table_at (routesConsumes duplicating_tables) p)])
           (map fst (routesMethod duplicating_tables))
   \<and> media_types_of (table_at (routesConsumes duplicating_tables) ''/v1/pets'') ''post''
        = [''application/json'', ''text/xml'', ''text/plain'']
   \<and> distinct (media_types_of (table_at (routesConsumes duplicating_tables) ''/v1/pets'') ''post'')
   \<and> distinct (media_types_of (table_at (routesProduces duplicating_tables) ''/v1/pets'') ''post'')
   \<and> distinct (accept_media_types (table_at (routesProduces duplicating_tables) ''/v1/pets'')
                 (table_at (routesConsumes duplicating_tables) ''/v1/pets'') ''post'')"
proof -
  let ?routes = "[a_route ''post'' ''/pets'' (Fn docs_handler) (Some duplicated_media),
             a_route ''post'' ''/pets'' (Fn docs_handler) (Some [''text/xml'', ''text/plain''])]"
  let ?stack = "[VerbLayer ''get'' ''/v1/api-docs'' [] (Fn docs_handler),
               VerbLayer ''post'' ''/v1/pets'' [] (Fn docs_handler),
               VerbLayer ''post'' ''/v1/pets'' [] (Fn docs_handler),
               UseLayer ''/v1/pets''
                 [\<lambda>errorName. buildNotAllowedMiddleware_old [''post'', ''post''],
                  \<lambda>errorName. validateContentTypeHeaderMiddleware_old
                     [(''post'', [''application/json'', ''text/xml'', ''text/plain''])],
                  \<lambda>errorName. validateAcceptHeaderMiddleware_old
                     [(''post'', [''application/json'', ''text/xml'', ''text/plain''])]
                     [(''post'', [''application/json'', ''text/xml'', ''text/plain''])]]]"
  let ?stack' = "[VerbLayer ''get'' ''/v1/api-docs'' [] (Fn docs_handler),
               VerbLayer ''post'' ''/v1/pets'' [] (Fn docs_handler),
               VerbLayer ''post'' ''/v1/pets'' [] (Fn docs_handler),
               UseLayer ''/v1/pets''
                 [\<lambda>errorName. appendSwaggerDefinitionsToReq ''/v1/pets'' (opt_api duplicating_options),
                  \<lambda>errorName. buildNotAllowedMiddleware errorName [''post'', ''post''],
                  \<lambda>errorName. validateContentTypeHeaderMiddleware errorName
                     [(''post'', [''application/json'', ''text/xml'', ''text/plain''])],
                  \<lambda>errorName. validateAcceptHeaderMiddleware errorName
                     [(''post'', [''application/json'', ''text/xml'', ''text/plain''])]
                     [(''post'', [''application/json'', ''text/xml'', ''text/plain''])]]]"
  have rs: "opt_routes duplicating_options = Some ?routes"
    by (simp add: duplicating_options_def)
  have dup: "\<not> distinct duplicated_media"
    by (simp add: duplicated_media_def)
  have t: "fold (record_route ''/v1'') ?routes empty_tables = duplicating_tables"
    by (simp add: duplicating_tables_def a_route_def record_route_def record_media_def
        empty_tables_def media_types_of_def first_occurrences_def duplicated_media_def
        toLowerCase_def toLowerChar_def Let_def buildRoutePath_def utils_prefix_def)
  have run: "expressroutes_old a_router duplicating_options
     = Inr (a_router\<lparr>router_stack := ?stack\<rparr>,
            duplicating_options\<lparr>opt_docspath := Some ''/api-docs''\<rparr>)"
    by (simp add: expressroutes_old_def duplicating_options_def use_group_old_def table_at_def
        makeExpressRoute_def a_router_def a_route_def router_verb_def router_use_def Let_def
        buildRoutePath_def utils_prefix_def utils_unsuffix_def or_default_def suffix_to_prefix
        record_route_def record_media_def empty_tables_def media_types_of_def
        first_occurrences_def duplicated_media_def toLowerCase_def toLowerChar_def)
  have run': "expressroutes None a_router duplicating_options
     = Inr (a_router\<lparr>router_stack := ?stack'\<rparr>,
            duplicating_options\<lparr>opt_docspath := Some ''/api-docs''\<rparr>, None)"
    by (simp add: expressroutes_def duplicating_options_def use_group_def table_at_def
        makeExpressRoute_def a_router_def a_route_def router_verb_def router_use_def Let_def
        buildRoutePath_def utils_prefix_def utils_unsuffix_def or_default_def suffix_to_prefix
        record_route_def record_media_def empty_tables_def media_types_of_def
        first_occurrences_def duplicated_media_def toLowerCase_def toLowerChar_def)
  have ap: "(opt_api duplicating_options)\<lparr>api_basePath := Some (utils_prefix (or_default
              (api_basePath (opt_api duplicating_options)) ''/'') ''/'')\<rparr>
            = opt_api duplicating_options"
    by (simp add: duplicating_options_def or_default_def utils_prefix_def)
  have rs': "?routes = (case opt_routes duplicating_options of Some rs \<Rightarrow> rs | None \<Rightarrow> [])"
    by (simp add: rs)
  have mp: "''/v1'' = utils_unsuffix (utils_prefix (or_default (api_basePath (opt_api duplicating_options)) ''/'') ''/'') ''/''"
    by (simp add: duplicating_options_def or_default_def utils_prefix_def utils_unsuffix_def
        suffix_to_prefix)
  note main = recorded_media_types_distinct [where opts = duplicating_options and r = a_router
      and routePath = "''/v1/pets''" and m = "''post''"
      and r' = "a_router\<lparr>router_stack := ?stack\<rparr>"
      and opts' = "duplicating_options\<lparr>opt_docspath := Some ''/api-docs''\<rparr>"
      and errorName = None and r'' = "a_router\<lparr>router_stack := ?stack'\<rparr>"
      and opts'' = "duplicating_options\<lparr>opt_docspath := Some ''/api-docs''\<rparr>"
      and errorName' = None,
      OF rs' refl mp refl t [symmetric], unfolded ap]
  from main [THEN conjunct1, rule_format, OF run]
  have groups: "drop 3 ?stack
       = map (\<lambda>p. UseLayer p
                [\<lambda>errorName. buildNotAllowedMiddleware_old
                    (table_at (routesMethod duplicating_tables) p),
                 \<lambda>errorName. validateContentTypeHeaderMiddleware_old
                    (table_at (routesConsumes duplicating_tables) p),
                 \<lambda>errorName. validateAcceptHeaderMiddleware_old
                    (table_at (routesProduces duplicating_tables) p)
                    (table_at (routesConsumes duplicating_tables) p)])
           (map fst (routesMethod duplicating_tables))"
    by (simp add: a_router_def)
  from main [THEN conjunct2, THEN conjunct1, rule_format, OF run']
  have groups': "drop 3 ?stack'
       = map (\<lambda>p. UseLayer p
                [\<lambda>errorName. appendSwaggerDefinitionsToReq p (opt_api duplicating_options),
                 \<lambda>errorName. buildNotAllowedMiddleware errorName
                    (table_at (routesMethod duplicating_tables) p),
                 \<lambda>errorName. validateContentTypeHeaderMiddleware errorName
                    (table_at (routesConsumes duplicating_tables) p),
                 \<lambda>errorName. validateAcceptHeaderMiddleware errorName
                    (table_at (routesProduces duplicating_tables) p)
                    (table_at (routesConsumes duplicating_tables) p)])
           (map fst (routesMethod duplicating_tables))"
    by (simp add: a_router_def)
  have tbl: "media_types_of (table_at (routesConsumes duplicating_tables) ''/v1/pets'') ''post''
        = [''application/json'', ''text/xml'', ''text/plain'']"
    by (simp add: duplicating_tables_def table_at_def media_types_of_def)
  from main [THEN conjunct2, THEN conjunct2]
  have d: "distinct (media_types_of (table_at (routesConsumes duplicating_tables) ''/v1/pets'') ''post'')"
    "distinct (media_types_of (table_at (routesProduces duplicating_tables) ''/v1/pets'') ''post'')"
    "distinct (accept_media_types (table_at (routesProduces duplicating_tables) ''/v1/pets'')
                 (table_at (routesConsumes duplicating_tables) ''/v1/pets'') ''post'')"
    by simp_all
  from rs dup t run groups run' groups' tbl d show ?thesis by (intro conjI)
qed

end
